theory Spec2Isabelle
  imports Main "HOL-Library.Word" "HOL-Library.AList" "HOL-Library.Sublist"
begin

unbundle bit_operations_syntax

section \<open>The socket pool worker of OvenMediaEngine\<close>

text \<open>
  A shallow embedding of \<^verbatim>\<open>src/projects/base/ovsocket/socket_pool/socket_pool_worker.cpp\<close>.

  The worker owns the handle map, the pending queues and the GC-candidate set; they are the
  fields of the record \<open>worker\<close> below and every method of \<^verbatim>\<open>SocketPoolWorker\<close> is a
  function from worker to worker (with a return value where the method has one).

  Two collaborators are not part of the file and are taken as parameters, collected in the
  record \<open>externals\<close>:
  \<^item> the class \<^verbatim>\<open>ov::Socket\<close>: the state of a socket object is a value of an arbitrary type
    \<open>'s\<close>, and every method the worker calls is a function on that state (a getter returns a
    value, a mutator returns the new state, \<^verbatim>\<open>DispatchEvents\<close> and \<^verbatim>\<open>GetSockOpt\<close> return both).
    A method acts on the state of its own object only;
  \<^item> the polling backend (\<^verbatim>\<open>epoll_ctl\<close>, \<^verbatim>\<open>epoll_wait\<close>, \<^verbatim>\<open>srt_epoll_*\<close>,
    \<^verbatim>\<open>srt_getsockstate\<close>): its state is a value of an arbitrary type \<open>'b\<close>, and each primitive
    is a function on it that returns its result and the new state.

  Socket objects live in a store (\<open>sockets\<close>, from references to states): the handle map,
  the queues and the GC set hold references (\<^verbatim>\<open>std::shared_ptr<Socket>\<close>), so a socket
  reached through two containers is the same object.

  Every call of a mutating socket method, every backend registration call, every error or
  warning log line and every failed assertion is appended to the field \<open>trace\<close>, so that
  "this method is called once" and "nothing is logged" are statements about the trace.
  A failed \<^verbatim>\<open>OV_ASSERT\<close> is recorded and execution continues. Debug log lines are left out.

  The model is sequential: it follows the worker's thread, and an operation called from
  another thread (\<open>AddToEpoll\<close>, \<open>DeleteFromEpoll\<close>, the enqueue operations, \<open>Uninitialize\<close>)
  is a step between two steps of that thread.
\<close>

subsection \<open>Enumerations and constants\<close>

text \<open>The enumerations, constants and macros below are declared in headers that are not
  part of the sources (\<^verbatim>\<open>socket_pool_worker.h\<close>, \<^verbatim>\<open>socket.h\<close>, the library's macros, and the
  system's \<^verbatim>\<open>sys/epoll.h\<close>, \<^verbatim>\<open>errno.h\<close> and \<^verbatim>\<open>srt.h\<close>). \<open>SocketState\<close> has the states the
  specification lists; the numeric constants have their Linux and SRT values;
  \<open>InvalidSocket\<close> is the invalid descriptor \<open>-1\<close>; \<open>OV_CHECK_FLAG\<close> tests that every bit of
  the flag is set. The statements proved for every worker use the constants by name only.\<close>

datatype SocketType = Unknown | Udp | Tcp | Srt

datatype SocketState = Closed | Connecting | Connected | Disconnected | Error

datatype BlockingMode = Blocking | NonBlocking

text \<open>\<^verbatim>\<open>Socket::DispatchResult\<close>; its third value is \<^verbatim>\<open>Error\<close> in the source, renamed here
  because \<open>Error\<close> is the socket state.\<close>

datatype DispatchResult = Dispatched | PartialDispatched | DispatchError

text \<open>\<^verbatim>\<open>SRT_SOCKSTATUS\<close> of the SRT library.\<close>

datatype SRT_SOCKSTATUS =
  SRTS_INIT | SRTS_OPENED | SRTS_LISTENING | SRTS_CONNECTING | SRTS_CONNECTED
  | SRTS_BROKEN | SRTS_CLOSING | SRTS_CLOSED | SRTS_NONEXIST

text \<open>The errors the worker hands to \<^verbatim>\<open>OnConnectedEvent\<close>: the timeout error of
  \<^verbatim>\<open>CallbackTimedOutConnections\<close>, the error made from \<^verbatim>\<open>SO_ERROR\<close>, and the error
  made when the option cannot be read.\<close>

datatype SocketError = TimedOutByWorker | SocketErrorCode int | UnknownSocketError

definition InvalidSocket :: int where
  "InvalidSocket = - 1"

definition EINTR :: int where
  "EINTR = 4"

definition EBADF :: int where
  "EBADF = 9"

definition EPOLLIN :: "32 word" where
  "EPOLLIN = 0x001"

definition EPOLLOUT :: "32 word" where
  "EPOLLOUT = 0x004"

definition EPOLLERR :: "32 word" where
  "EPOLLERR = 0x008"

definition EPOLLHUP :: "32 word" where
  "EPOLLHUP = 0x010"

definition EPOLLRDHUP :: "32 word" where
  "EPOLLRDHUP = 0x2000"

definition SRT_EPOLL_IN :: "32 word" where
  "SRT_EPOLL_IN = 0x1"

definition SRT_EPOLL_OUT :: "32 word" where
  "SRT_EPOLL_OUT = 0x4"

definition SRT_EPOLL_ERR :: "32 word" where
  "SRT_EPOLL_ERR = 0x8"

definition OV_CHECK_FLAG :: "32 word \<Rightarrow> 32 word \<Rightarrow> bool" where
  "OV_CHECK_FLAG x flag = (x AND flag = flag)"

subsection \<open>Events, the trace, the collaborators\<close>

type_synonym socket_ref = nat

record epoll_event =
  events :: "32 word"
  data_ptr :: "socket_ref option"

record SRT_EPOLL_EVENT =
  fd :: int
  srt_events :: "32 word"

datatype call =
  GetSockOpt
  | OnConnectedEvent "SocketError option"
  | DispatchEvents
  | OnDataAvailableEvent
  | SetEndOfStream
  | CloseWithState SocketState
  | CloseInternal
  | SetState SocketState
  | SetFirstEpollEventReceived

datatype backend_call =
  EpollCtlAdd int | EpollCtlDel int | SrtEpollAddUsock int | SrtEpollRemoveUsock int

datatype trace_item =
  Call socket_ref call
  | Backend socket_ref backend_call
  | LogError string
  | LogWarning string
  | AssertFailed

text \<open>The result of a wait primitive: the events it returned (their number is the event
  count, zero on a timeout), or a failure with its error code.\<close>

datatype 'e wait_result = Polled "'e list" | WaitFailed int

record ('s, 'b) externals =
  Socket_GetNativeHandle :: "'s \<Rightarrow> int"
  Socket_GetState :: "'s \<Rightarrow> SocketState"
  Socket_GetBlockingMode :: "'s \<Rightarrow> BlockingMode"
  Socket_IsClosable :: "'s \<Rightarrow> bool"
  Socket_NeedToWaitFirstEpollEvent :: "'s \<Rightarrow> bool"
  Socket_HasCommand :: "'s \<Rightarrow> bool"
  Socket_HasExpiredCommand :: "'s \<Rightarrow> bool"
  Socket_GetSockOpt :: "'s \<Rightarrow> int option \<times> 's"
  Socket_OnConnectedEvent :: "SocketError option \<Rightarrow> 's \<Rightarrow> 's"
  Socket_DispatchEvents :: "'s \<Rightarrow> DispatchResult \<times> 's"
  Socket_OnDataAvailableEvent :: "'s \<Rightarrow> 's"
  Socket_SetEndOfStream :: "'s \<Rightarrow> 's"
  Socket_CloseWithState :: "SocketState \<Rightarrow> 's \<Rightarrow> 's"
  Socket_CloseInternal :: "'s \<Rightarrow> 's"
  Socket_SetState :: "SocketState \<Rightarrow> 's \<Rightarrow> 's"
  Socket_SetFirstEpollEventReceived :: "'s \<Rightarrow> 's"
  epoll_ctl_add :: "int \<Rightarrow> 'b \<Rightarrow> int option \<times> 'b"
  epoll_ctl_del :: "int \<Rightarrow> 'b \<Rightarrow> int option \<times> 'b"
  srt_epoll_add_usock :: "int \<Rightarrow> 'b \<Rightarrow> int option \<times> 'b"
  srt_epoll_remove_usock :: "int \<Rightarrow> 'b \<Rightarrow> int option \<times> 'b"
  epoll_wait :: "int \<Rightarrow> 'b \<Rightarrow> epoll_event wait_result \<times> 'b"
  srt_epoll_uwait :: "int \<Rightarrow> 'b \<Rightarrow> SRT_EPOLL_EVENT wait_result \<times> 'b"
  srt_getsockstate :: "int \<Rightarrow> 'b \<Rightarrow> SRT_SOCKSTATUS"
  close_epoll :: "int \<Rightarrow> 'b \<Rightarrow> 'b"
  srt_close :: "int \<Rightarrow> 'b \<Rightarrow> 'b"
  EpollMaxEvents :: nat
  MessageErrorCode :: int

text \<open>
  \<open>Socket_GetSockOpt\<close> is \<^verbatim>\<open>GetSockOpt(SO_ERROR, &value)\<close>: \<open>None\<close> when it returns
  false, the value read otherwise. A registration primitive returns \<open>None\<close> on success
  and the error code on failure. A wait primitive takes the timeout. \<open>EpollMaxEvents\<close> is
  the constant of the worker's header, and \<open>MessageErrorCode\<close> is what \<^verbatim>\<open>GetCode\<close> returns
  for an error made from a message alone (\<^verbatim>\<open>Error::CreateError("Socket", ...)\<close>).
\<close>

text \<open>\<^verbatim>\<open>ov::Error\<close>, as the worker makes it: from \<^verbatim>\<open>errno\<close>, from the last SRT error, or from
  a message.\<close>

datatype Error_obj = ErrorFromErrno int | ErrorFromSrt int | ErrorFromMessage string

fun GetCode :: "('s, 'b) externals \<Rightarrow> Error_obj \<Rightarrow> int" where
  "GetCode X (ErrorFromErrno c) = c"
| "GetCode X (ErrorFromSrt c) = c"
| "GetCode X (ErrorFromMessage m) = MessageErrorCode X"

subsection \<open>The worker\<close>

text \<open>
  \<open>socket_map\<close> and \<open>gc_candidates\<close> are the two maps keyed by native handle, kept as
  association lists with one entry per key. A loop over such a container starts at
  \<^verbatim>\<open>begin()\<close> and visits the entries in ascending key order: it is a walk over the list
  sorted by key (\<open>sort_key fst\<close>). A value of \<open>socket_map\<close> can be the null pointer
  (\<open>None\<close>), which \<^verbatim>\<open>operator[]\<close> inserts for a missing key.
\<close>

record ('s, 'b) worker =
  sockets :: "socket_ref \<Rightarrow> 's"
  backend :: 'b
  pool_type :: SocketType
  epoll :: int
  srt_epoll :: int
  stop_epoll_thread :: bool
  epoll_thread_joinable :: bool
  socket_count :: int
  socket_map :: "(int \<times> socket_ref option) list"
  sockets_to_insert :: "socket_ref list"
  sockets_to_dispatch :: "socket_ref list"
  sockets_to_delete :: "socket_ref list"
  connection_timed_out_queue :: "socket_ref list"
  connection_callback_queue :: "(socket_ref \<times> int) list"
  connection_callback_queue_running :: bool
  gc_candidates :: "(int \<times> socket_ref) list"
  epoll_events :: "epoll_event list"
  srt_epoll_events :: "SRT_EPOLL_EVENT list"
  last_epoll_event_count :: int
  trace :: "trace_item list"

definition emit :: "trace_item \<Rightarrow> ('s, 'b) worker \<Rightarrow> ('s, 'b) worker" where
  "emit item w = w\<lparr>trace := trace w @ [item]\<rparr>"

text \<open>Calling a mutator of socket \<open>socket\<close>: the object is updated in the store and the
  call is recorded.\<close>

definition call_socket ::
  "socket_ref \<Rightarrow> call \<Rightarrow> ('s \<Rightarrow> 's) \<Rightarrow> ('s, 'b) worker \<Rightarrow> ('s, 'b) worker" where
  "call_socket socket c f w =
     w\<lparr>sockets := (sockets w)(socket := f (sockets w socket)),
       trace := trace w @ [Call socket c]\<rparr>"

text \<open>The calls a trace holds for one socket, in order.\<close>

fun calls_of :: "socket_ref \<Rightarrow> trace_item list \<Rightarrow> call list" where
  "calls_of s [] = []"
| "calls_of s (Call s' c # tr) = (if s' = s then c # calls_of s tr else calls_of s tr)"
| "calls_of s (_ # tr) = calls_of s tr"


text \<open>The calls of \<open>DispatchEvents\<close> in a trace, on any socket.\<close>

fun is_dispatch :: "trace_item \<Rightarrow> bool" where
  "is_dispatch (Call s DispatchEvents) = True"
| "is_dispatch _ = False"

definition GetNativeHandle :: "('s, 'b) worker \<Rightarrow> int" where
  "GetNativeHandle w = (if pool_type w = Srt then srt_epoll w else epoll w)"

subsection \<open>CallbackTimedOutConnections\<close>

definition timed_out_step ::
  "('s, 'b) externals \<Rightarrow> socket_ref \<Rightarrow> ('s, 'b) worker \<Rightarrow> ('s, 'b) worker" where
  "timed_out_step X socket w =
     (if Socket_GetState X (sockets w socket) = Connecting
      then call_socket socket (OnConnectedEvent (Some TimedOutByWorker))
             (Socket_OnConnectedEvent X (Some TimedOutByWorker)) w
      else w)"

definition CallbackTimedOutConnections ::
  "('s, 'b) externals \<Rightarrow> ('s, 'b) worker \<Rightarrow> ('s, 'b) worker" where
  "CallbackTimedOutConnections X w =
     (let timed_out_queue = connection_timed_out_queue w;
          w1 = w\<lparr>connection_timed_out_queue := []\<rparr>
      in fold (timed_out_step X) timed_out_queue w1)"

subsection \<open>MergeSocketList\<close>

text \<open>Each loop dequeues until its queue is empty: the entries are applied in queue order
  and the queue is left empty.\<close>

definition merge_insert ::
  "('s, 'b) externals \<Rightarrow> socket_ref \<Rightarrow> ('s, 'b) worker \<Rightarrow> ('s, 'b) worker" where
  "merge_insert X socket w =
     w\<lparr>socket_map :=
         AList.update (Socket_GetNativeHandle X (sockets w socket)) (Some socket) (socket_map w)\<rparr>"

definition merge_delete ::
  "('s, 'b) externals \<Rightarrow> socket_ref \<Rightarrow> ('s, 'b) worker \<Rightarrow> ('s, 'b) worker" where
  "merge_delete X socket w =
     w\<lparr>socket_map :=
         AList.delete (Socket_GetNativeHandle X (sockets w socket)) (socket_map w)\<rparr>"

definition MergeSocketList :: "('s, 'b) externals \<Rightarrow> ('s, 'b) worker \<Rightarrow> ('s, 'b) worker" where
  "MergeSocketList X w =
     (let w1 = (fold (merge_insert X) (sockets_to_insert w) w)\<lparr>sockets_to_insert := []\<rparr>
      in (fold (merge_delete X) (sockets_to_delete w1) w1)\<lparr>sockets_to_delete := []\<rparr>)"

subsection \<open>Registration and deregistration\<close>

definition EnqueueToDispatchLater :: "socket_ref \<Rightarrow> ('s, 'b) worker \<Rightarrow> ('s, 'b) worker" where
  "EnqueueToDispatchLater socket w = w\<lparr>sockets_to_dispatch := sockets_to_dispatch w @ [socket]\<rparr>"

text \<open>The delayed callback of \<^verbatim>\<open>EnqueueToCheckConnectionTimeOut\<close> is pushed to the delay
  queue; when it fires, it appends the socket to the connection-timeout queue.\<close>

definition EnqueueToCheckConnectionTimeOut ::
  "socket_ref \<Rightarrow> int \<Rightarrow> ('s, 'b) worker \<Rightarrow> ('s, 'b) worker" where
  "EnqueueToCheckConnectionTimeOut socket timeout_msec w =
     w\<lparr>connection_callback_queue := connection_callback_queue w @ [(socket, timeout_msec)]\<rparr>"

definition connection_callback_fired :: "socket_ref \<Rightarrow> ('s, 'b) worker \<Rightarrow> ('s, 'b) worker" where
  "connection_callback_fired socket w =
     w\<lparr>connection_timed_out_queue := connection_timed_out_queue w @ [socket]\<rparr>"

text \<open>One backend registration call: the call is recorded for the socket, the backend state
  is replaced, and the error (if any) is returned.\<close>

definition backend_ctl ::
  "socket_ref \<Rightarrow> backend_call \<Rightarrow> ('b \<Rightarrow> int option \<times> 'b) \<Rightarrow> (int \<Rightarrow> Error_obj) \<Rightarrow>
   ('s, 'b) worker \<Rightarrow> Error_obj option \<times> ('s, 'b) worker" where
  "backend_ctl socket c f mk w =
     (map_option mk (fst (f (backend w))),
      w\<lparr>backend := snd (f (backend w)), trace := trace w @ [Backend socket c]\<rparr>)"


definition DeleteFromEpoll ::
  "('s, 'b) externals \<Rightarrow> socket_ref \<Rightarrow> ('s, 'b) worker \<Rightarrow> bool \<times> ('s, 'b) worker" where
  "DeleteFromEpoll X socket w =
     (if GetNativeHandle w = InvalidSocket
      then (False, emit AssertFailed (emit (LogError ''Epoll is not initialized'') w))
      else
        let native_handle = Socket_GetNativeHandle X (sockets w socket);
            (error, w1) =
              (case pool_type w of
                 Udp \<Rightarrow> backend_ctl socket (EpollCtlDel native_handle)
                          (epoll_ctl_del X native_handle) ErrorFromErrno w
               | Tcp \<Rightarrow> backend_ctl socket (EpollCtlDel native_handle)
                          (epoll_ctl_del X native_handle) ErrorFromErrno w
               | Srt \<Rightarrow> backend_ctl socket (SrtEpollRemoveUsock native_handle)
                          (srt_epoll_remove_usock X native_handle) ErrorFromSrt w
               | Unknown \<Rightarrow> (Some (ErrorFromMessage ''Not implemented''), w))
        in case error of
             None \<Rightarrow> (True, w1\<lparr>sockets_to_delete := sockets_to_delete w1 @ [socket]\<rparr>)
           | Some e \<Rightarrow>
               if GetCode X e = EBADF then (False, w1)
               else (False, emit (LogError ''Could not delete the socket from epoll'') w1))"

subsection \<open>GarbageCollection\<close>

text \<open>The loop walks the entries of the GC set in key order; an entry is erased through its
  iterator, that is, its key is removed from the set. \<open>DispatchEvents\<close> is called for its effect, the
  results of it and of \<open>DeleteFromEpoll\<close> are dropped.\<close>

definition gc_step ::
  "('s, 'b) externals \<Rightarrow> int \<times> socket_ref \<Rightarrow> ('s, 'b) worker \<Rightarrow> ('s, 'b) worker" where
  "gc_step X candidate w =
     (let socket = snd candidate in
      if Socket_HasExpiredCommand X (sockets w socket) then
        let w1 = emit (LogWarning ''Failed to send data - garbage collection'') w;
            w2 = call_socket socket CloseInternal (Socket_CloseInternal X) w1;
            w3 = call_socket socket DispatchEvents (\<lambda>s. snd (Socket_DispatchEvents X s)) w2;
            w4 = snd (DeleteFromEpoll X socket w3)
        in w4\<lparr>gc_candidates := AList.delete (fst candidate) (gc_candidates w4)\<rparr>
      else if \<not> Socket_HasCommand X (sockets w socket) then
        w\<lparr>gc_candidates := AList.delete (fst candidate) (gc_candidates w)\<rparr>
      else w)"

definition GarbageCollection :: "('s, 'b) externals \<Rightarrow> ('s, 'b) worker \<Rightarrow> ('s, 'b) worker" where
  "GarbageCollection X w = fold (gc_step X) (sort_key fst (gc_candidates w)) w"


subsection \<open>EpollWait and ConvertSrtEventToEpollEvent\<close>

text \<open>\<^verbatim>\<open>_socket_map[key]\<close>: the value stored for the key; a missing key is inserted with the
  null pointer first.\<close>

definition map_subscript ::
  "int \<Rightarrow> (int \<times> socket_ref option) list \<Rightarrow> socket_ref option \<times> (int \<times> socket_ref option) list" where
  "map_subscript k m =
     (case map_of m k of
        Some v \<Rightarrow> (v, m)
      | None \<Rightarrow> (None, m @ [(k, None)]))"

definition srt_status_flags :: "SRT_SOCKSTATUS \<Rightarrow> 32 word \<Rightarrow> 32 word" where
  "srt_status_flags status ev =
     (case status of
        SRTS_LISTENING \<Rightarrow> ev
      | SRTS_NONEXIST \<Rightarrow> ev OR EPOLLHUP
      | SRTS_BROKEN \<Rightarrow> ev OR EPOLLHUP
      | SRTS_CLOSED \<Rightarrow> ev OR EPOLLHUP
      | SRTS_CONNECTED \<Rightarrow> ev
      | _ \<Rightarrow> ev)"

definition ConvertSrtEventToEpollEvent ::
  "('s, 'b) externals \<Rightarrow> SRT_EPOLL_EVENT \<Rightarrow> ('s, 'b) worker \<Rightarrow> epoll_event \<times> ('s, 'b) worker" where
  "ConvertSrtEventToEpollEvent X srt_event w =
     (let srt_socket = fd srt_event;
          status = srt_getsockstate X srt_socket (backend w);
          (ptr, m) = map_subscript srt_socket (socket_map w);
          e0 = 0;
          e1 = (if OV_CHECK_FLAG (srt_events srt_event) SRT_EPOLL_IN then e0 OR EPOLLIN else e0);
          e2 = (if OV_CHECK_FLAG (srt_events srt_event) SRT_EPOLL_OUT then e1 OR EPOLLOUT else e1);
          e3 = (if OV_CHECK_FLAG (srt_events srt_event) SRT_EPOLL_ERR then e2 OR EPOLLERR else e2)
      in (\<lparr>events = srt_status_flags status e3, data_ptr = ptr\<rparr>, w\<lparr>socket_map := m\<rparr>))"

text \<open>The conversion loop of \<open>EpollWait\<close>: the events converted so far, in order.\<close>

fun convert_all ::
  "('s, 'b) externals \<Rightarrow> SRT_EPOLL_EVENT list \<Rightarrow> ('s, 'b) worker \<Rightarrow>
   epoll_event list \<times> ('s, 'b) worker" where
  "convert_all X [] w = ([], w)"
| "convert_all X (e # es) w =
     (let (ev, w1) = ConvertSrtEventToEpollEvent X e w;
          (evs, w2) = convert_all X es w1
      in (ev # evs, w2))"

text \<open>A wait primitive fills the first entries of the event buffer, at most
  \<open>EpollMaxEvents\<close> of them, and returns their number.\<close>

definition store_events :: "'e list \<Rightarrow> 'e list \<Rightarrow> 'e list" where
  "store_events evs buffer = evs @ drop (length evs) buffer"

text \<open>The switch of \<open>EpollWait\<close> gives the error (if any), the event count and the worker.\<close>

definition EpollWait ::
  "('s, 'b) externals \<Rightarrow> int \<Rightarrow> ('s, 'b) worker \<Rightarrow> int \<times> ('s, 'b) worker" where
  "EpollWait X timeout_msec w =
     (if GetNativeHandle w = InvalidSocket
      then (- 1, emit AssertFailed (emit (LogError ''Epoll is not initialized'') w))
      else
        let (error, event_count, w1) =
              (case pool_type w of
                 Unknown \<Rightarrow> (Some (ErrorFromMessage ''Unknown socket type''), 0, w)
               | Srt \<Rightarrow>
                   (let (r, b) = srt_epoll_uwait X timeout_msec (backend w);
                        w0 = w\<lparr>backend := b\<rparr>
                    in case r of
                         WaitFailed code \<Rightarrow> (Some (ErrorFromSrt code), - 1, emit AssertFailed w0)
                       | Polled evs0 \<Rightarrow>
                           (let evs = take (EpollMaxEvents X) evs0 in
                            if evs = [] then (None, 0, w0)
                            else
                              let wa = w0\<lparr>srt_epoll_events := store_events evs (srt_epoll_events w0)\<rparr>;
                                  wb = MergeSocketList X wa;
                                  (converted, wc) = convert_all X evs wb
                              in (None, int (length evs),
                                  wc\<lparr>epoll_events := store_events converted (epoll_events wc)\<rparr>)))
               | _ \<Rightarrow>
                   (let (r, b) = epoll_wait X timeout_msec (backend w);
                        w0 = w\<lparr>backend := b\<rparr>
                    in case r of
                         WaitFailed code \<Rightarrow>
                           if GetCode X (ErrorFromErrno code) = EINTR then (None, 0, w0)
                           else (Some (ErrorFromErrno code), - 1, emit AssertFailed w0)
                       | Polled evs0 \<Rightarrow>
                           (let evs = take (EpollMaxEvents X) evs0 in
                            (None, int (length evs),
                             w0\<lparr>epoll_events := store_events evs (epoll_events w0)\<rparr>))))
        in if error = None
           then (event_count, w1\<lparr>last_epoll_event_count := event_count\<rparr>)
           else (0, (emit (LogError ''Could not wait for epoll'') w1)\<lparr>last_epoll_event_count := 0\<rparr>))"

subsection \<open>The event loop\<close>

text \<open>The step from \<^verbatim>\<open>EPOLLOUT\<close> on a connecting socket (the pending connect is resolved
  from \<^verbatim>\<open>SO_ERROR\<close>); the result is \<^verbatim>\<open>need_to_close\<close>.\<close>

definition resolve_connect ::
  "('s, 'b) externals \<Rightarrow> socket_ref \<Rightarrow> 32 word \<Rightarrow> ('s, 'b) worker \<Rightarrow> bool \<times> ('s, 'b) worker" where
  "resolve_connect X socket evs w =
     (if OV_CHECK_FLAG evs EPOLLOUT \<and> Socket_GetState X (sockets w socket) = Connecting then
        let so = fst (Socket_GetSockOpt X (sockets w socket));
            w1 = call_socket socket GetSockOpt (\<lambda>s. snd (Socket_GetSockOpt X s)) w
        in case so of
             Some so_error \<Rightarrow>
               if so_error = 0
               then (False, call_socket socket (OnConnectedEvent None)
                              (Socket_OnConnectedEvent X None) w1)
               else (True, call_socket socket (OnConnectedEvent (Some (SocketErrorCode so_error)))
                             (Socket_OnConnectedEvent X (Some (SocketErrorCode so_error))) w1)
           | None \<Rightarrow>
               (True, call_socket socket (OnConnectedEvent (Some UnknownSocketError))
                        (Socket_OnConnectedEvent X (Some UnknownSocketError)) w1)
      else (False, w))"

text \<open>The four flag tests made for a non-blocking socket while \<^verbatim>\<open>need_to_close\<close> is false
  on entry. Each takes and returns \<^verbatim>\<open>need_to_close\<close>, \<^verbatim>\<open>new_state\<close> and the worker.\<close>

type_synonym ('s, 'b) closing = "bool \<times> SocketState \<times> ('s, 'b) worker"

definition worker_of :: "('s, 'b) closing \<Rightarrow> ('s, 'b) worker" where
  "worker_of c = snd (snd c)"

definition on_epollout ::
  "('s, 'b) externals \<Rightarrow> socket_ref \<Rightarrow> 32 word \<Rightarrow> ('s, 'b) closing \<Rightarrow> ('s, 'b) closing" where
  "on_epollout X socket evs c =
     (case c of (need_to_close, new_state, w) \<Rightarrow>
        if OV_CHECK_FLAG evs EPOLLOUT then
          if \<not> OV_CHECK_FLAG evs EPOLLHUP then
            let r = fst (Socket_DispatchEvents X (sockets w socket));
                w1 = call_socket socket DispatchEvents (\<lambda>s. snd (Socket_DispatchEvents X s)) w
            in case r of
                 Dispatched \<Rightarrow> (need_to_close, new_state, w1)
               | PartialDispatched \<Rightarrow>
                   (need_to_close, new_state,
                    w1\<lparr>gc_candidates :=
                         AList.update (Socket_GetNativeHandle X (sockets w1 socket)) socket
                           (gc_candidates w1)\<rparr>)
               | DispatchError \<Rightarrow> (True, Error, w1)
          else c
        else c)"

definition on_epollin ::
  "('s, 'b) externals \<Rightarrow> socket_ref \<Rightarrow> 32 word \<Rightarrow> ('s, 'b) closing \<Rightarrow> ('s, 'b) closing" where
  "on_epollin X socket evs c =
     (case c of (need_to_close, new_state, w) \<Rightarrow>
        if OV_CHECK_FLAG evs EPOLLIN
        then (need_to_close, new_state,
              call_socket socket OnDataAvailableEvent (Socket_OnDataAvailableEvent X) w)
        else c)"

definition on_epollerr ::
  "('s, 'b) externals \<Rightarrow> socket_ref \<Rightarrow> 32 word \<Rightarrow> ('s, 'b) closing \<Rightarrow> ('s, 'b) closing" where
  "on_epollerr X socket evs c =
     (case c of (need_to_close, new_state, w) \<Rightarrow>
        if OV_CHECK_FLAG evs EPOLLERR
        then (True, Error, call_socket socket GetSockOpt (\<lambda>s. snd (Socket_GetSockOpt X s)) w)
        else c)"

definition on_epollhup ::
  "('s, 'b) externals \<Rightarrow> socket_ref \<Rightarrow> 32 word \<Rightarrow> ('s, 'b) closing \<Rightarrow> ('s, 'b) closing" where
  "on_epollhup X socket evs c =
     (case c of (need_to_close, new_state, w) \<Rightarrow>
        if OV_CHECK_FLAG evs EPOLLHUP \<or> OV_CHECK_FLAG evs EPOLLRDHUP then
          if Socket_GetState X (sockets w socket) \<noteq> Error
          then (True, Disconnected,
                call_socket socket SetEndOfStream (Socket_SetEndOfStream X) w)
          else c
        else c)"

definition process_flags ::
  "('s, 'b) externals \<Rightarrow> socket_ref \<Rightarrow> 32 word \<Rightarrow> ('s, 'b) worker \<Rightarrow> ('s, 'b) closing" where
  "process_flags X socket evs w =
     on_epollhup X socket evs
       (on_epollerr X socket evs
         (on_epollin X socket evs
           (on_epollout X socket evs (False, Closed, w))))"

text \<open>The closure at the end of the loop body.\<close>

definition close_socket ::
  "('s, 'b) externals \<Rightarrow> socket_ref \<Rightarrow> SocketState \<Rightarrow> ('s, 'b) worker \<Rightarrow> ('s, 'b) worker" where
  "close_socket X socket new_state w =
     (let w1 = w\<lparr>gc_candidates :=
                  AList.delete (Socket_GetNativeHandle X (sockets w socket)) (gc_candidates w)\<rparr>;
          w2 = (if Socket_IsClosable X (sockets w1 socket)
                then call_socket socket (CloseWithState new_state)
                       (Socket_CloseWithState X new_state) w1
                else w1)
      in EnqueueToDispatchLater socket w2)"

text \<open>What the loop body does with an event that has passed the first-event check.\<close>

definition process_event ::
  "('s, 'b) externals \<Rightarrow> socket_ref \<Rightarrow> 32 word \<Rightarrow> ('s, 'b) worker \<Rightarrow> ('s, 'b) worker" where
  "process_event X socket evs w =
     (let (need_to_close, w1) = resolve_connect X socket evs w in
      if Socket_GetBlockingMode X (sockets w1 socket) = Blocking then w1
      else
        let (need_to_close2, new_state, w2) =
              (if \<not> need_to_close then process_flags X socket evs w1
               else (need_to_close, Closed, w1))
        in if need_to_close2 then close_socket X socket new_state w2 else w2)"

text \<open>The body of the loop over the polled events, for one event.\<close>

definition handle_event ::
  "('s, 'b) externals \<Rightarrow> epoll_event \<Rightarrow> ('s, 'b) worker \<Rightarrow> ('s, 'b) worker" where
  "handle_event X event w =
     (case data_ptr event of
        None \<Rightarrow> emit (LogError ''Could not convert socket data'') (emit AssertFailed w)
      | Some socket \<Rightarrow>
          if \<not> Socket_IsClosable X (sockets w socket) then w
          else if Socket_NeedToWaitFirstEpollEvent X (sockets w socket) then
            if OV_CHECK_FLAG (events event) EPOLLOUT
            then call_socket socket SetFirstEpollEventReceived
                   (Socket_SetFirstEpollEventReceived X) w
            else process_event X socket (events event) (emit AssertFailed w)
          else process_event X socket (events event) w)"


text \<open>The deferred dispatch after the batch: the list is swapped out and each socket of it
  is dispatched.\<close>

definition dispatch_later_step ::
  "('s, 'b) externals \<Rightarrow> socket_ref \<Rightarrow> ('s, 'b) worker \<Rightarrow> ('s, 'b) worker" where
  "dispatch_later_step X socket w =
     (let r = fst (Socket_DispatchEvents X (sockets w socket));
          w1 = call_socket socket DispatchEvents (\<lambda>s. snd (Socket_DispatchEvents X s)) w
      in case r of
           Dispatched \<Rightarrow> w1
         | PartialDispatched \<Rightarrow>
             w1\<lparr>gc_candidates :=
                  AList.update (Socket_GetNativeHandle X (sockets w1 socket)) socket
                    (gc_candidates w1)\<rparr>
         | DispatchError \<Rightarrow>
             call_socket socket (CloseWithState Error) (Socket_CloseWithState X Error) w1)"

definition dispatch_later :: "('s, 'b) externals \<Rightarrow> ('s, 'b) worker \<Rightarrow> ('s, 'b) worker" where
  "dispatch_later X w =
     (if sockets_to_dispatch w \<noteq> [] then
        let socket_list = sockets_to_dispatch w;
            w1 = w\<lparr>sockets_to_dispatch := []\<rparr>
        in fold (dispatch_later_step X) socket_list w1
      else w)"

text \<open>One iteration of the loop of \<open>ThreadProc\<close>. Whether the GC interval has elapsed is an
  input of the iteration.\<close>

definition ThreadProc_iteration ::
  "('s, 'b) externals \<Rightarrow> bool \<Rightarrow> ('s, 'b) worker \<Rightarrow> ('s, 'b) worker" where
  "ThreadProc_iteration X gc_interval_elapsed w =
     (let (count, w1) = EpollWait X 100 w;
          w2 = (if count < 0 then emit (LogError ''An error occurred - EpollWait()'') w1
                else
                  let w1a = CallbackTimedOutConnections X w1
                  in fold (handle_event X) (take (nat count) (epoll_events w1a)) w1a);
          w3 = dispatch_later X w2;
          w4 = (if gc_interval_elapsed then GarbageCollection X w3 else w3)
      in MergeSocketList X w4)"

subsection \<open>Leaving the loop, and Uninitialize\<close>

text \<open>The clean-up after the loop calls \<^verbatim>\<open>socket->IsClosable()\<close> on every value of the
  handle map, in key order. On a null value that is a null dereference: the result is \<open>None\<close>.\<close>

fun cleanup_sockets ::
  "('s, 'b) externals \<Rightarrow> (int \<times> socket_ref option) list \<Rightarrow> ('s, 'b) worker \<Rightarrow>
   ('s, 'b) worker option" where
  "cleanup_sockets X [] w = Some w"
| "cleanup_sockets X ((h, None) # rest) w = None"
| "cleanup_sockets X ((h, Some socket) # rest) w =
     cleanup_sockets X rest
       (if Socket_IsClosable X (sockets w socket) then
          call_socket socket DispatchEvents (\<lambda>s. snd (Socket_DispatchEvents X s))
            (call_socket socket (SetState Closed) (Socket_SetState X Closed)
              (call_socket socket CloseInternal (Socket_CloseInternal X) w))
        else w)"

definition ThreadProc_exit :: "('s, 'b) externals \<Rightarrow> ('s, 'b) worker \<Rightarrow> ('s, 'b) worker option" where
  "ThreadProc_exit X w =
     cleanup_sockets X (sort_key fst (socket_map w))
       (w\<lparr>connection_callback_queue_running := False\<rparr>)"

text \<open>\<open>Uninitialize\<close> sets the stop flag and joins the thread: the thread sees the flag at
  the top of its loop, leaves the loop and runs the clean-up. The worker given to
  \<open>Uninitialize\<close> is the worker as the thread has left it when it sees the flag.\<close>

definition OV_SAFE_FUNC :: "int \<Rightarrow> (int \<Rightarrow> 'b \<Rightarrow> 'b) \<Rightarrow> 'b \<Rightarrow> 'b" where
  "OV_SAFE_FUNC handle close_func b = (if handle \<noteq> InvalidSocket then close_func handle b else b)"

definition Uninitialize ::
  "('s, 'b) externals \<Rightarrow> ('s, 'b) worker \<Rightarrow> (bool \<times> ('s, 'b) worker) option" where
  "Uninitialize X w =
     (if GetNativeHandle w = InvalidSocket
      then Some (False, emit AssertFailed (emit (LogError ''Epoll is not initialized'') w))
      else
        let w1 = w\<lparr>connection_callback_queue := [], stop_epoll_thread := True\<rparr>
        in case (if epoll_thread_joinable w1
                 then map_option (\<lambda>v. v\<lparr>epoll_thread_joinable := False\<rparr>) (ThreadProc_exit X w1)
                 else Some w1) of
             None \<Rightarrow> None
           | Some w2 \<Rightarrow>
               Some (True,
                 w2\<lparr>socket_count := 0,
                    socket_map := [],
                    sockets_to_insert := [],
                    sockets_to_dispatch := [],
                    sockets_to_delete := [],
                    connection_timed_out_queue := [],
                    gc_candidates := [],
                    backend := OV_SAFE_FUNC (srt_epoll w2) (srt_close X)
                                 (OV_SAFE_FUNC (epoll w2) (close_epoll X) (backend w2)),
                    epoll := InvalidSocket,
                    srt_epoll := InvalidSocket\<rparr>))"

section \<open>A sample instance\<close>

text \<open>A concrete socket class and backend, used to evaluate the worker on sample inputs.
  The sample socket keeps its answers in fields; a close makes it not closable, a connect
  outcome moves it to \<open>Connected\<close> or \<open>Error\<close>. The sample backend refuses negative
  handles, and its state is the result of the next \<^verbatim>\<open>epoll_wait\<close>.\<close>

record demo_socket =
  d_handle :: int
  d_state :: SocketState
  d_blocking :: BlockingMode
  d_closable :: bool
  d_need_first :: bool
  d_has_command :: bool
  d_has_expired :: bool
  d_so_error :: "int option"
  d_dispatch :: DispatchResult
  d_eos :: bool

definition demo :: "(demo_socket, epoll_event wait_result) externals" where
  "demo =
     \<lparr>Socket_GetNativeHandle = d_handle,
      Socket_GetState = d_state,
      Socket_GetBlockingMode = d_blocking,
      Socket_IsClosable = d_closable,
      Socket_NeedToWaitFirstEpollEvent = d_need_first,
      Socket_HasCommand = d_has_command,
      Socket_HasExpiredCommand = d_has_expired,
      Socket_GetSockOpt = (\<lambda>s. (d_so_error s, s)),
      Socket_OnConnectedEvent =
        (\<lambda>e s. s\<lparr>d_state := (case e of None \<Rightarrow> Connected | Some _ \<Rightarrow> Error)\<rparr>),
      Socket_DispatchEvents = (\<lambda>s. (d_dispatch s, s)),
      Socket_OnDataAvailableEvent = (\<lambda>s. s),
      Socket_SetEndOfStream = (\<lambda>s. s\<lparr>d_eos := True\<rparr>),
      Socket_CloseWithState = (\<lambda>st s. s\<lparr>d_state := st, d_closable := False\<rparr>),
      Socket_CloseInternal = (\<lambda>s. s\<lparr>d_closable := False\<rparr>),
      Socket_SetState = (\<lambda>st s. s\<lparr>d_state := st\<rparr>),
      Socket_SetFirstEpollEventReceived = (\<lambda>s. s\<lparr>d_need_first := False\<rparr>),
      epoll_ctl_add = (\<lambda>h b. (if h < 0 then Some EBADF else None, b)),
      epoll_ctl_del = (\<lambda>h b. (if h < 0 then Some EBADF else None, b)),
      srt_epoll_add_usock = (\<lambda>h b. (if h < 0 then Some 5004 else None, b)),
      srt_epoll_remove_usock = (\<lambda>h b. (if h < 0 then Some 5004 else None, b)),
      epoll_wait = (\<lambda>t b. (b, b)),
      srt_epoll_uwait = (\<lambda>t b. (Polled [], b)),
      srt_getsockstate = (\<lambda>h b. (if h < 0 then SRTS_NONEXIST else SRTS_CONNECTED)),
      close_epoll = (\<lambda>h b. b),
      srt_close = (\<lambda>h b. b),
      EpollMaxEvents = 1024,
      MessageErrorCode = 0\<rparr>"

definition demo_sock :: "int \<Rightarrow> SocketState \<Rightarrow> demo_socket" where
  "demo_sock h st =
     \<lparr>d_handle = h, d_state = st, d_blocking = NonBlocking, d_closable = True,
      d_need_first = False, d_has_command = False, d_has_expired = False,
      d_so_error = Some 0, d_dispatch = Dispatched, d_eos = False\<rparr>"

definition demo_worker ::
  "(socket_ref \<Rightarrow> demo_socket) \<Rightarrow> (demo_socket, epoll_event wait_result) worker" where
  "demo_worker store =
     \<lparr>sockets = store, backend = Polled [], pool_type = Tcp, epoll = 3, srt_epoll = - 1,
      stop_epoll_thread = False, epoll_thread_joinable = True, socket_count = 0,
      socket_map = [], sockets_to_insert = [], sockets_to_dispatch = [],
      sockets_to_delete = [], connection_timed_out_queue = [],
      connection_callback_queue = [], connection_callback_queue_running = True,
      gc_candidates = [], epoll_events = [], srt_epoll_events = [],
      last_epoll_event_count = 0, trace = []\<rparr>"

text \<open>Three sample sockets: a connecting one, a connected one, and one whose descriptor
  the sample backend refuses.\<close>

definition sample_sockets :: "socket_ref \<Rightarrow> demo_socket" where
  "sample_sockets =
     (\<lambda>_. demo_sock 0 Closed)
       (0 := demo_sock 10 Connecting, 1 := demo_sock 11 Connected, 2 := demo_sock (- 5) Connected)"




text \<open>A socket class whose connect outcome leaves the state of the socket as it is, with a
  worker whose connection-timeout queue holds one connecting socket twice.\<close>

definition sticky :: "(demo_socket, epoll_event wait_result) externals" where
  "sticky = demo\<lparr>Socket_OnConnectedEvent := (\<lambda>e s. s)\<rparr>"

definition twice_worker :: "(demo_socket, epoll_event wait_result) worker" where
  "twice_worker = (demo_worker sample_sockets)\<lparr>connection_timed_out_queue := [0, 0]\<rparr>"

text \<open>A backend on which every deregistration fails with \<open>EBADF\<close> (the descriptors have been
  closed), with a worker whose handle map holds socket 2 under handle 15; socket 7 is a
  new socket that has been given the same descriptor number.\<close>

definition closed_fds :: "(demo_socket, epoll_event wait_result) externals" where
  "closed_fds = demo\<lparr>epoll_ctl_del := (\<lambda>h b. (Some EBADF, b))\<rparr>"



text \<open>An SRT worker with one registered socket.\<close>

definition srt_worker :: "(demo_socket, epoll_event wait_result) worker" where
  "srt_worker =
     (demo_worker sample_sockets)
       \<lparr>pool_type := Srt, epoll := - 1, srt_epoll := 5, socket_map := [(10, Some 0)]\<rparr>"

text \<open>An SRT backend whose wait reports a readable event for handle 42, which no socket
  of the sample workers has.\<close>

definition stray :: "(demo_socket, epoll_event wait_result) externals" where
  "stray = demo\<lparr>srt_epoll_uwait := (\<lambda>t b. (Polled [\<lparr>fd = 42, srt_events = 1\<rparr>], b))\<rparr>"

text \<open>Sockets for the loop body: one that still waits for its first epoll event, a
  connected one, one whose pending connect has failed, one whose dispatch is partial, one
  whose dispatch fails, and one that was closed before its first epoll event.\<close>

definition event_sockets :: "socket_ref \<Rightarrow> demo_socket" where
  "event_sockets =
     (\<lambda>_. demo_sock 0 Closed)
       (0 := (demo_sock 12 Connected)\<lparr>d_need_first := True\<rparr>,
        1 := demo_sock 11 Connected,
        2 := (demo_sock 13 Connecting)\<lparr>d_so_error := Some 111\<rparr>,
        3 := (demo_sock 14 Connected)\<lparr>d_dispatch := PartialDispatched\<rparr>,
        4 := (demo_sock 15 Connected)\<lparr>d_dispatch := DispatchError\<rparr>,
        5 := (demo_sock 16 Closed)\<lparr>d_need_first := True, d_closable := False\<rparr>)"

definition event_worker :: "(demo_socket, epoll_event wait_result) worker" where
  "event_worker = (demo_worker event_sockets)\<lparr>gc_candidates := [(11, 1)]\<rparr>"

definition registered_worker :: "(demo_socket, epoll_event wait_result) worker" where
  "registered_worker = (demo_worker sample_sockets)\<lparr>socket_map := [(10, Some 0), (11, Some 1)]\<rparr>"

section \<open>Auxiliary lemmas\<close>

lemma calls_of_append: "calls_of s (xs @ ys) = calls_of s xs @ calls_of s ys"
  by (induction s xs rule: calls_of.induct) auto


lemma sockets_call_socket:
  "sockets (call_socket a c f w) = (sockets w)(a := f (sockets w a))"
  by (simp add: call_socket_def)

lemma trace_call_socket: "trace (call_socket a c f w) = trace w @ [Call a c]"
  by (simp add: call_socket_def)

lemma timed_out_step_other:
  "a \<noteq> s \<Longrightarrow> sockets (timed_out_step X a w) s = sockets w s \<and>
     calls_of s (trace (timed_out_step X a w)) = calls_of s (trace w)"
  by (simp add: timed_out_step_def sockets_call_socket trace_call_socket calls_of_append)

lemma timed_out_step_idle:
  "Socket_GetState X (sockets w a) \<noteq> Connecting \<Longrightarrow> timed_out_step X a w = w"
  by (simp add: timed_out_step_def)

lemma timed_out_fold_idle:
  "Socket_GetState X (sockets w s) \<noteq> Connecting \<or> s \<notin> set q \<Longrightarrow>
   sockets (fold (timed_out_step X) q w) s = sockets w s \<and>
   calls_of s (trace (fold (timed_out_step X) q w)) = calls_of s (trace w)"
proof (induction q arbitrary: w)
  case Nil
  then show ?case by simp
next
  case (Cons a q)
  show ?case
  proof (cases "a = s")
    case True
    with Cons.prems have idle: "Socket_GetState X (sockets w s) \<noteq> Connecting" by auto
    then have "timed_out_step X a w = w" using True by (simp add: timed_out_step_idle)
    with Cons.IH [of w] idle show ?thesis by simp
  next
    case False
    let ?w1 = "timed_out_step X a w"
    from False have same: "sockets ?w1 s = sockets w s"
      "calls_of s (trace ?w1) = calls_of s (trace w)"
      using timed_out_step_other [of a s X w] by simp_all
    from Cons.prems False same
    have "Socket_GetState X (sockets ?w1 s) \<noteq> Connecting \<or> s \<notin> set q" by auto
    from Cons.IH [OF this] same show ?thesis by simp
  qed
qed

lemma timed_out_fold_fires:
  "s \<in> set q \<Longrightarrow> Socket_GetState X (sockets w s) = Connecting \<Longrightarrow>
   count_list q s = 1 \<or>
     Socket_GetState X (Socket_OnConnectedEvent X (Some TimedOutByWorker) (sockets w s)) \<noteq> Connecting \<Longrightarrow>
   sockets (fold (timed_out_step X) q w) s =
     Socket_OnConnectedEvent X (Some TimedOutByWorker) (sockets w s) \<and>
   calls_of s (trace (fold (timed_out_step X) q w)) =
     calls_of s (trace w) @ [OnConnectedEvent (Some TimedOutByWorker)]"
proof (induction q arbitrary: w)
  case Nil
  then show ?case by simp
next
  case (Cons a q)
  let ?w1 = "timed_out_step X a w"
  show ?case
  proof (cases "a = s")
    case True
    have w1: "sockets ?w1 s = Socket_OnConnectedEvent X (Some TimedOutByWorker) (sockets w s)"
      "calls_of s (trace ?w1) = calls_of s (trace w) @ [OnConnectedEvent (Some TimedOutByWorker)]"
      using True Cons.prems(2)
      by (simp_all add: timed_out_step_def sockets_call_socket trace_call_socket calls_of_append)
    from Cons.prems(3) True w1(1)
    have "Socket_GetState X (sockets ?w1 s) \<noteq> Connecting \<or> s \<notin> set q"
      by (auto simp: count_list_0_iff)
    from timed_out_fold_idle [OF this] w1 show ?thesis by simp
  next
    case False
    from False have same: "sockets ?w1 s = sockets w s"
      "calls_of s (trace ?w1) = calls_of s (trace w)"
      using timed_out_step_other [of a s X w] by simp_all
    have "s \<in> set q" using Cons.prems(1) False by simp
    moreover have "Socket_GetState X (sockets ?w1 s) = Connecting"
      using Cons.prems(2) same by simp
    moreover have "count_list q s = 1 \<or>
      Socket_GetState X (Socket_OnConnectedEvent X (Some TimedOutByWorker) (sockets ?w1 s)) \<noteq> Connecting"
      using Cons.prems(3) False same by simp
    ultimately show ?thesis using Cons.IH [of ?w1] same by simp
  qed
qed

lemma demo_simps [simp]:
  "Socket_GetNativeHandle demo = d_handle"
  "Socket_GetState demo = d_state"
  "Socket_GetBlockingMode demo = d_blocking"
  "Socket_IsClosable demo = d_closable"
  "Socket_NeedToWaitFirstEpollEvent demo = d_need_first"
  "Socket_HasCommand demo = d_has_command"
  "Socket_HasExpiredCommand demo = d_has_expired"
  "Socket_GetSockOpt demo = (\<lambda>s. (d_so_error s, s))"
  "Socket_OnConnectedEvent demo =
     (\<lambda>e s. s\<lparr>d_state := (case e of None \<Rightarrow> Connected | Some _ \<Rightarrow> Error)\<rparr>)"
  "Socket_DispatchEvents demo = (\<lambda>s. (d_dispatch s, s))"
  "Socket_OnDataAvailableEvent demo = (\<lambda>s. s)"
  "Socket_SetEndOfStream demo = (\<lambda>s. s\<lparr>d_eos := True\<rparr>)"
  "Socket_CloseWithState demo = (\<lambda>st s. s\<lparr>d_state := st, d_closable := False\<rparr>)"
  "Socket_CloseInternal demo = (\<lambda>s. s\<lparr>d_closable := False\<rparr>)"
  "Socket_SetState demo = (\<lambda>st s. s\<lparr>d_state := st\<rparr>)"
  "Socket_SetFirstEpollEventReceived demo = (\<lambda>s. s\<lparr>d_need_first := False\<rparr>)"
  "epoll_ctl_add demo = (\<lambda>h b. (if h < 0 then Some EBADF else None, b))"
  "epoll_ctl_del demo = (\<lambda>h b. (if h < 0 then Some EBADF else None, b))"
  "srt_epoll_add_usock demo = (\<lambda>h b. (if h < 0 then Some 5004 else None, b))"
  "srt_epoll_remove_usock demo = (\<lambda>h b. (if h < 0 then Some 5004 else None, b))"
  "epoll_wait demo = (\<lambda>t b. (b, b))"
  "srt_epoll_uwait demo = (\<lambda>t b. (Polled [], b))"
  "srt_getsockstate demo = (\<lambda>h b. (if h < 0 then SRTS_NONEXIST else SRTS_CONNECTED))"
  "EpollMaxEvents demo = 1024"
  "MessageErrorCode demo = 0"
  by (simp_all add: demo_def)


section \<open>The connection-timeout queue\<close>

lemma timed_out_fold_queue:
  "connection_timed_out_queue (fold (timed_out_step X) q w) = connection_timed_out_queue w"
  by (induction q arbitrary: w) (simp_all add: timed_out_step_def call_socket_def)

lemma timed_out_fold_count:
  "\<exists>n. n \<le> count_list q s \<and>
       (s \<in> set q \<and> Socket_GetState X (sockets w s) = Connecting \<longrightarrow> 1 \<le> n) \<and>
       calls_of s (trace (fold (timed_out_step X) q w)) =
         calls_of s (trace w) @ replicate n (OnConnectedEvent (Some TimedOutByWorker)) \<and>
       sockets (fold (timed_out_step X) q w) s =
         (Socket_OnConnectedEvent X (Some TimedOutByWorker) ^^ n) (sockets w s)"
proof (induction q arbitrary: w)
  case Nil
  show ?case by simp
next
  case (Cons a q)
  let ?T = "OnConnectedEvent (Some TimedOutByWorker)"
  let ?f = "Socket_OnConnectedEvent X (Some TimedOutByWorker)"
  let ?w1 = "timed_out_step X a w"
  from Cons.IH [of ?w1] obtain n where n: "n \<le> count_list q s"
    "s \<in> set q \<and> Socket_GetState X (sockets ?w1 s) = Connecting \<longrightarrow> 1 \<le> n"
    "calls_of s (trace (fold (timed_out_step X) q ?w1)) = calls_of s (trace ?w1) @ replicate n ?T"
    "sockets (fold (timed_out_step X) q ?w1) s = (?f ^^ n) (sockets ?w1 s)"
    by blast
  show ?case
  proof (cases "a = s \<and> Socket_GetState X (sockets w s) = Connecting")
    case True
    then have w1: "sockets ?w1 s = ?f (sockets w s)"
      "calls_of s (trace ?w1) = calls_of s (trace w) @ [?T]"
      by (simp_all add: timed_out_step_def sockets_call_socket trace_call_socket calls_of_append)
    have "Suc n \<le> count_list (a # q) s" using n(1) True by simp
    moreover have "calls_of s (trace (fold (timed_out_step X) (a # q) w)) =
        calls_of s (trace w) @ replicate (Suc n) ?T"
      using n(3) w1(2) by (simp add: replicate_app_Cons_same)
    moreover have "sockets (fold (timed_out_step X) (a # q) w) s = (?f ^^ Suc n) (sockets w s)"
      using n(4) w1(1) by (simp add: funpow_swap1)
    ultimately show ?thesis by (intro exI [of _ "Suc n"]) simp
  next
    case False
    have same: "sockets ?w1 s = sockets w s \<and> calls_of s (trace ?w1) = calls_of s (trace w)"
    proof (cases "a = s")
      case True
      with False have "Socket_GetState X (sockets w a) \<noteq> Connecting" by simp
      then show ?thesis by (simp add: timed_out_step_idle)
    next
      case False
      then show ?thesis by (rule timed_out_step_other)
    qed
    have "n \<le> count_list (a # q) s" using n(1) by simp
    moreover have "s \<in> set (a # q) \<and> Socket_GetState X (sockets w s) = Connecting \<longrightarrow> 1 \<le> n"
      using n(2) False same by auto
    moreover have "calls_of s (trace (fold (timed_out_step X) (a # q) w)) =
        calls_of s (trace w) @ replicate n ?T"
      using n(3) same by simp
    moreover have "sockets (fold (timed_out_step X) (a # q) w) s = (?f ^^ n) (sockets w s)"
      using n(4) same by simp
    ultimately show ?thesis by blast
  qed
qed

lemma sticky_simps [simp]:
  "Socket_GetState sticky = d_state"
  "Socket_OnConnectedEvent sticky = (\<lambda>e s. s)"
  by (simp_all add: sticky_def)

text \<open>
  Claim C3, as stated, fails: the connection-timeout queue holds one entry per scheduled
  timeout and the loop tests every entry when it reaches it. A socket that was scheduled
  twice and that the connect-failure outcome leaves in state \<open>Connecting\<close> receives two
  connect-failure outcomes, not exactly one.
\<close>

theorem timed_out_twice_counterexample:
  "connection_timed_out_queue twice_worker = [0, 0] \<and>
   Socket_GetState sticky (sockets twice_worker 0) = Connecting \<and>
   calls_of 0 (trace (CallbackTimedOutConnections sticky twice_worker)) =
     [OnConnectedEvent (Some TimedOutByWorker), OnConnectedEvent (Some TimedOutByWorker)]"
  by (simp add: CallbackTimedOutConnections_def timed_out_step_def call_socket_def
      twice_worker_def demo_worker_def sample_sockets_def demo_sock_def)

text \<open>
  Claim C3, amended. \<open>CallbackTimedOutConnections\<close> drains the connection-timeout queue and
  handles its entries in order, each entry when the loop reaches it. For every socket \<open>s\<close>:
  \<^item> if \<open>s\<close> is not in state \<open>Connecting\<close> when the queue is processed, or is not in the
    queue, it receives no call at all and its object is left as it was;
  \<^item> if \<open>s\<close> is in the queue and in state \<open>Connecting\<close>, it receives only connect-failure
    outcomes (\<open>OnConnectedEvent\<close> with the timeout error), at least one and at most one per
    entry of the queue that names it, and its object is the result of that many outcomes;
  \<^item> it receives exactly one, and its object is the result of that one outcome, when it is
    in the queue once or when the outcome moves it out of \<open>Connecting\<close>.
\<close>

theorem CallbackTimedOutConnections_outcomes:
  "connection_timed_out_queue (CallbackTimedOutConnections X w) = [] \<and>
   (Socket_GetState X (sockets w s) \<noteq> Connecting \<or> s \<notin> set (connection_timed_out_queue w) \<longrightarrow>
      calls_of s (trace (CallbackTimedOutConnections X w)) = calls_of s (trace w) \<and>
      sockets (CallbackTimedOutConnections X w) s = sockets w s) \<and>
   (s \<in> set (connection_timed_out_queue w) \<and> Socket_GetState X (sockets w s) = Connecting \<longrightarrow>
      (\<exists>n. 1 \<le> n \<and> n \<le> count_list (connection_timed_out_queue w) s \<and>
         calls_of s (trace (CallbackTimedOutConnections X w)) =
           calls_of s (trace w) @ replicate n (OnConnectedEvent (Some TimedOutByWorker)) \<and>
         sockets (CallbackTimedOutConnections X w) s =
           (Socket_OnConnectedEvent X (Some TimedOutByWorker) ^^ n) (sockets w s))) \<and>
   (s \<in> set (connection_timed_out_queue w) \<and>
    Socket_GetState X (sockets w s) = Connecting \<and>
    (count_list (connection_timed_out_queue w) s = 1 \<or>
     Socket_GetState X (Socket_OnConnectedEvent X (Some TimedOutByWorker) (sockets w s)) \<noteq> Connecting)
    \<longrightarrow>
      calls_of s (trace (CallbackTimedOutConnections X w)) =
        calls_of s (trace w) @ [OnConnectedEvent (Some TimedOutByWorker)] \<and>
      sockets (CallbackTimedOutConnections X w) s =
        Socket_OnConnectedEvent X (Some TimedOutByWorker) (sockets w s))"
proof -
  let ?q = "connection_timed_out_queue w"
  let ?w1 = "w\<lparr>connection_timed_out_queue := []\<rparr>"
  have unfold: "CallbackTimedOutConnections X w = fold (timed_out_step X) ?q ?w1"
    by (simp add: CallbackTimedOutConnections_def)
  have drained: "connection_timed_out_queue (CallbackTimedOutConnections X w) = []"
    by (simp add: unfold timed_out_fold_queue)
  have idle: "calls_of s (trace (CallbackTimedOutConnections X w)) = calls_of s (trace w) \<and>
      sockets (CallbackTimedOutConnections X w) s = sockets w s"
    if "Socket_GetState X (sockets w s) \<noteq> Connecting \<or> s \<notin> set ?q"
    using that timed_out_fold_idle [of X ?w1 s ?q] by (simp add: unfold)
  have several: "\<exists>n. 1 \<le> n \<and> n \<le> count_list ?q s \<and>
         calls_of s (trace (CallbackTimedOutConnections X w)) =
           calls_of s (trace w) @ replicate n (OnConnectedEvent (Some TimedOutByWorker)) \<and>
         sockets (CallbackTimedOutConnections X w) s =
           (Socket_OnConnectedEvent X (Some TimedOutByWorker) ^^ n) (sockets w s)"
    if "s \<in> set ?q" "Socket_GetState X (sockets w s) = Connecting"
    using that timed_out_fold_count [of ?q s X ?w1] by (auto simp: unfold)
  have fires: "calls_of s (trace (CallbackTimedOutConnections X w)) =
        calls_of s (trace w) @ [OnConnectedEvent (Some TimedOutByWorker)] \<and>
      sockets (CallbackTimedOutConnections X w) s =
        Socket_OnConnectedEvent X (Some TimedOutByWorker) (sockets w s)"
    if "s \<in> set ?q" "Socket_GetState X (sockets w s) = Connecting"
      "count_list ?q s = 1 \<or>
       Socket_GetState X (Socket_OnConnectedEvent X (Some TimedOutByWorker) (sockets w s)) \<noteq> Connecting"
    using that timed_out_fold_fires [of s ?q X ?w1] by (simp add: unfold)
  from drained idle several fires show ?thesis by blast
qed

theorem CallbackTimedOutConnections_outcomes_witness:
  "Socket_GetState demo (sockets ((demo_worker sample_sockets)\<lparr>connection_timed_out_queue := [0, 1]\<rparr>) 0) = Connecting \<and>
   count_list [0, 1 :: nat] 0 = 1 \<and>
   calls_of 0 (trace (CallbackTimedOutConnections demo
       ((demo_worker sample_sockets)\<lparr>connection_timed_out_queue := [0, 1]\<rparr>))) =
     [OnConnectedEvent (Some TimedOutByWorker)] \<and>
   d_state (sockets (CallbackTimedOutConnections demo
       ((demo_worker sample_sockets)\<lparr>connection_timed_out_queue := [0, 1]\<rparr>)) 0) = Error \<and>
   Socket_GetState demo (sockets ((demo_worker sample_sockets)\<lparr>connection_timed_out_queue := [0, 1]\<rparr>) 1) \<noteq> Connecting \<and>
   calls_of 1 (trace (CallbackTimedOutConnections demo
       ((demo_worker sample_sockets)\<lparr>connection_timed_out_queue := [0, 1]\<rparr>))) = [] \<and>
   d_state (sockets (CallbackTimedOutConnections demo
       ((demo_worker sample_sockets)\<lparr>connection_timed_out_queue := [0, 1]\<rparr>)) 1) = Connected \<and>
   (\<exists>n. 1 \<le> n \<and> n \<le> 2 \<and>
      calls_of 0 (trace (CallbackTimedOutConnections sticky twice_worker)) =
        replicate n (OnConnectedEvent (Some TimedOutByWorker)))"
proof -
  let ?w = "(demo_worker sample_sockets)\<lparr>connection_timed_out_queue := [0, 1]\<rparr>"
  have a: "calls_of 0 (trace (CallbackTimedOutConnections demo ?w)) =
       [OnConnectedEvent (Some TimedOutByWorker)] \<and>
     d_state (sockets (CallbackTimedOutConnections demo ?w) 0) = Error"
    using CallbackTimedOutConnections_outcomes [of demo ?w 0,
        THEN conjunct2, THEN conjunct2, THEN conjunct2]
    by (simp add: demo_worker_def sample_sockets_def demo_sock_def)
  have b: "calls_of 1 (trace (CallbackTimedOutConnections demo ?w)) = [] \<and>
     d_state (sockets (CallbackTimedOutConnections demo ?w) 1) = Connected"
    using CallbackTimedOutConnections_outcomes [of demo ?w 1, THEN conjunct2, THEN conjunct1]
    by (simp add: demo_worker_def sample_sockets_def demo_sock_def)
  have h: "0 \<in> set (connection_timed_out_queue twice_worker) \<and>
      Socket_GetState sticky (sockets twice_worker 0) = Connecting"
    by (simp add: twice_worker_def demo_worker_def sample_sockets_def demo_sock_def)
  have k: "count_list (connection_timed_out_queue twice_worker) 0 = 2"
    "calls_of 0 (trace twice_worker) = []"
    by (simp_all add: twice_worker_def demo_worker_def)
  from CallbackTimedOutConnections_outcomes [of sticky twice_worker 0,
      THEN conjunct2, THEN conjunct2, THEN conjunct1, THEN mp, OF h]
  obtain n where "1 \<le> n" "n \<le> count_list (connection_timed_out_queue twice_worker) 0"
    "calls_of 0 (trace (CallbackTimedOutConnections sticky twice_worker)) =
       calls_of 0 (trace twice_worker) @ replicate n (OnConnectedEvent (Some TimedOutByWorker))"
    by blast
  then have c: "\<exists>n. 1 \<le> n \<and> n \<le> 2 \<and>
      calls_of 0 (trace (CallbackTimedOutConnections sticky twice_worker)) =
        replicate n (OnConnectedEvent (Some TimedOutByWorker))"
    by (auto simp: k)
  have d: "Socket_GetState demo (sockets ?w 0) = Connecting" "count_list [0, 1 :: nat] 0 = 1"
    "Socket_GetState demo (sockets ?w 1) \<noteq> Connecting"
    by (simp_all add: demo_worker_def sample_sockets_def demo_sock_def)
  from a b c d show ?thesis by blast
qed

section \<open>Registration, deregistration and the merge\<close>

lemma sockets_fold_merge_insert [simp]:
  "sockets (fold (merge_insert X) q w) = sockets w"
  by (induction q arbitrary: w) (simp_all add: merge_insert_def)

lemma sockets_fold_merge_delete [simp]:
  "sockets (fold (merge_delete X) q w) = sockets w"
  by (induction q arbitrary: w) (simp_all add: merge_delete_def)

lemma sockets_to_delete_fold_merge_insert [simp]:
  "sockets_to_delete (fold (merge_insert X) q w) = sockets_to_delete w"
  by (induction q arbitrary: w) (simp_all add: merge_insert_def)











lemma closed_fds_simps [simp]:
  "Socket_GetNativeHandle closed_fds = d_handle"
  "epoll_ctl_add closed_fds = (\<lambda>h b. (if h < 0 then Some EBADF else None, b))"
  "epoll_ctl_del closed_fds = (\<lambda>h b. (Some EBADF, b))"
  "MessageErrorCode closed_fds = 0"
  by (simp_all add: closed_fds_def)




section \<open>Waiting for events\<close>

lemma EpollWait_epoll_zero:
  assumes "GetNativeHandle w \<noteq> InvalidSocket" and "pool_type w = Tcp \<or> pool_type w = Udp"
    and "epoll_wait X timeout_msec (backend w) = (Polled [], b) \<or>
         epoll_wait X timeout_msec (backend w) = (WaitFailed EINTR, b)"
  shows "EpollWait X timeout_msec w = (0, w\<lparr>backend := b, last_epoll_event_count := 0\<rparr>)"
  using assms by (auto simp: EpollWait_def Let_def store_events_def)

lemma EpollWait_srt_zero:
  assumes "GetNativeHandle w \<noteq> InvalidSocket" and "pool_type w = Srt"
    and "srt_epoll_uwait X timeout_msec (backend w) = (Polled [], b)"
  shows "EpollWait X timeout_msec w = (0, w\<lparr>backend := b, last_epoll_event_count := 0\<rparr>)"
  using assms by (auto simp: EpollWait_def Let_def store_events_def)

lemma ThreadProc_iteration_zero:
  assumes "EpollWait X 100 w = (0, w0)"
  shows "ThreadProc_iteration X g w =
     MergeSocketList X
       ((if g then GarbageCollection X else (\<lambda>v. v))
          (dispatch_later X (CallbackTimedOutConnections X w0)))"
  using assms by (simp add: ThreadProc_iteration_def Let_def)

text \<open>
  Claim C8. On an initialized worker, a wait that returns no event (either backend) and an
  \<^verbatim>\<open>epoll_wait\<close> that fails with \<open>EINTR\<close> have the same outcome: \<open>EpollWait\<close> returns 0,
  records 0 as the last event count, and adds nothing to the trace (no error line, no
  failed assertion). The iteration of the event loop then handles no event and goes on
  with the timeout queue, the deferred dispatch, the garbage collection and the merge.
\<close>

theorem EpollWait_timeout_and_interrupt:
  "GetNativeHandle w \<noteq> InvalidSocket \<and>
   ((pool_type w = Tcp \<or> pool_type w = Udp) \<and>
      (epoll_wait X timeout_msec (backend w) = (Polled [], b) \<or>
       epoll_wait X timeout_msec (backend w) = (WaitFailed EINTR, b))
    \<or> pool_type w = Srt \<and> srt_epoll_uwait X timeout_msec (backend w) = (Polled [], b)) \<longrightarrow>
     EpollWait X timeout_msec w = (0, w\<lparr>backend := b, last_epoll_event_count := 0\<rparr>) \<and>
     trace (snd (EpollWait X timeout_msec w)) = trace w \<and>
     (timeout_msec = 100 \<longrightarrow>
        ThreadProc_iteration X g w =
          MergeSocketList X
            ((if g then GarbageCollection X else (\<lambda>v. v))
               (dispatch_later X
                  (CallbackTimedOutConnections X (w\<lparr>backend := b, last_epoll_event_count := 0\<rparr>)))))"
proof (intro impI)
  assume h: "GetNativeHandle w \<noteq> InvalidSocket \<and>
   ((pool_type w = Tcp \<or> pool_type w = Udp) \<and>
      (epoll_wait X timeout_msec (backend w) = (Polled [], b) \<or>
       epoll_wait X timeout_msec (backend w) = (WaitFailed EINTR, b))
    \<or> pool_type w = Srt \<and> srt_epoll_uwait X timeout_msec (backend w) = (Polled [], b))"
  then have eq: "EpollWait X timeout_msec w = (0, w\<lparr>backend := b, last_epoll_event_count := 0\<rparr>)"
    using EpollWait_epoll_zero [of w X timeout_msec b] EpollWait_srt_zero [of w X timeout_msec b]
    by blast
  then have "trace (snd (EpollWait X timeout_msec w)) = trace w" by simp
  moreover have "ThreadProc_iteration X g w =
          MergeSocketList X
            ((if g then GarbageCollection X else (\<lambda>v. v))
               (dispatch_later X
                  (CallbackTimedOutConnections X (w\<lparr>backend := b, last_epoll_event_count := 0\<rparr>))))"
    if "timeout_msec = 100"
    using eq that by (simp add: ThreadProc_iteration_zero)
  ultimately show "EpollWait X timeout_msec w = (0, w\<lparr>backend := b, last_epoll_event_count := 0\<rparr>) \<and>
     trace (snd (EpollWait X timeout_msec w)) = trace w \<and>
     (timeout_msec = 100 \<longrightarrow>
        ThreadProc_iteration X g w =
          MergeSocketList X
            ((if g then GarbageCollection X else (\<lambda>v. v))
               (dispatch_later X
                  (CallbackTimedOutConnections X (w\<lparr>backend := b, last_epoll_event_count := 0\<rparr>)))))"
    using eq by blast
qed

theorem EpollWait_timeout_and_interrupt_witness:
  "EpollWait demo 100 ((demo_worker sample_sockets)\<lparr>backend := WaitFailed EINTR\<rparr>) =
     (0, (demo_worker sample_sockets)\<lparr>backend := WaitFailed EINTR\<rparr>) \<and>
   EpollWait demo 100 (demo_worker sample_sockets) = (0, demo_worker sample_sockets)"
  using EpollWait_timeout_and_interrupt
      [of "(demo_worker sample_sockets)\<lparr>backend := WaitFailed EINTR\<rparr>" demo 100 "WaitFailed EINTR" False]
    EpollWait_timeout_and_interrupt
      [of "demo_worker sample_sockets" demo 100 "Polled []" False]
  by (simp add: demo_worker_def GetNativeHandle_def InvalidSocket_def)

lemma handle_event_null:
  "data_ptr event = None \<Longrightarrow>
   handle_event X event w = emit (LogError ''Could not convert socket data'') (emit AssertFailed w)"
  by (simp add: handle_event_def)

text \<open>
  Claim C10. For an SRT event whose handle is not a key of the handle map,
  \<open>ConvertSrtEventToEpollEvent\<close> gives an event with a null payload and leaves a
  null-valued entry for the handle in the map. The loop body, on that event and any worker
  \<open>v\<close>, records the failed assertion and the error line and does nothing else: no socket
  object is touched and no socket method is called.
\<close>

theorem ConvertSrtEventToEpollEvent_absent_handle:
  "map_of (socket_map w) (fd srt_event) = None \<longrightarrow>
     data_ptr (fst (ConvertSrtEventToEpollEvent X srt_event w)) = None \<and>
     socket_map (snd (ConvertSrtEventToEpollEvent X srt_event w)) =
       socket_map w @ [(fd srt_event, None)] \<and>
     map_of (socket_map (snd (ConvertSrtEventToEpollEvent X srt_event w))) (fd srt_event) = Some None \<and>
     handle_event X (fst (ConvertSrtEventToEpollEvent X srt_event w)) v =
       emit (LogError ''Could not convert socket data'') (emit AssertFailed v) \<and>
     sockets (handle_event X (fst (ConvertSrtEventToEpollEvent X srt_event w)) v) = sockets v \<and>
     calls_of s (trace (handle_event X (fst (ConvertSrtEventToEpollEvent X srt_event w)) v)) =
       calls_of s (trace v)"
proof
  assume absent: "map_of (socket_map w) (fd srt_event) = None"
  let ?c = "ConvertSrtEventToEpollEvent X srt_event w"
  have ptr: "data_ptr (fst ?c) = None"
    using absent by (simp add: ConvertSrtEventToEpollEvent_def map_subscript_def Let_def)
  have m: "socket_map (snd ?c) = socket_map w @ [(fd srt_event, None)]"
    using absent by (simp add: ConvertSrtEventToEpollEvent_def map_subscript_def Let_def)
  have look: "map_of (socket_map (snd ?c)) (fd srt_event) = Some None"
    using absent by (simp add: m map_add_def)
  have skip: "handle_event X (fst ?c) v =
       emit (LogError ''Could not convert socket data'') (emit AssertFailed v)"
    using ptr by (rule handle_event_null)
  have "sockets (handle_event X (fst ?c) v) = sockets v"
    "calls_of s (trace (handle_event X (fst ?c) v)) = calls_of s (trace v)"
    by (simp_all add: skip emit_def calls_of_append)
  with ptr m look skip show "data_ptr (fst ?c) = None \<and>
     socket_map (snd ?c) = socket_map w @ [(fd srt_event, None)] \<and>
     map_of (socket_map (snd ?c)) (fd srt_event) = Some None \<and>
     handle_event X (fst ?c) v = emit (LogError ''Could not convert socket data'') (emit AssertFailed v) \<and>
     sockets (handle_event X (fst ?c) v) = sockets v \<and>
     calls_of s (trace (handle_event X (fst ?c) v)) = calls_of s (trace v)"
    by blast
qed

theorem ConvertSrtEventToEpollEvent_absent_handle_witness:
  "map_of (socket_map (demo_worker sample_sockets)) 42 = None \<and>
   data_ptr (fst (ConvertSrtEventToEpollEvent demo \<lparr>fd = 42, srt_events = 4\<rparr>
     (demo_worker sample_sockets))) = None \<and>
   socket_map (snd (ConvertSrtEventToEpollEvent demo \<lparr>fd = 42, srt_events = 4\<rparr>
     (demo_worker sample_sockets))) = [(42, None)] \<and>
   trace (handle_event demo (fst (ConvertSrtEventToEpollEvent demo \<lparr>fd = 42, srt_events = 4\<rparr>
     (demo_worker sample_sockets))) (demo_worker sample_sockets)) =
     [AssertFailed, LogError ''Could not convert socket data'']"
  using ConvertSrtEventToEpollEvent_absent_handle
      [of "demo_worker sample_sockets" "\<lparr>fd = 42, srt_events = 4\<rparr>" demo
          "demo_worker sample_sockets" 0]
  by (simp add: demo_worker_def emit_def)

section \<open>Garbage collection\<close>

lemma GetNativeHandle_emit [simp]: "GetNativeHandle (emit i v) = GetNativeHandle v"
  by (simp add: GetNativeHandle_def emit_def)

lemma GetNativeHandle_call_socket [simp]:
  "GetNativeHandle (call_socket a c f v) = GetNativeHandle v"
  by (simp add: GetNativeHandle_def call_socket_def)

lemma GetNativeHandle_gc_candidates [simp]:
  "GetNativeHandle (v\<lparr>gc_candidates := g\<rparr>) = GetNativeHandle v"
  by (simp add: GetNativeHandle_def)

lemma pool_type_emit [simp]: "pool_type (emit i v) = pool_type v"
  by (simp add: emit_def)

lemma pool_type_call_socket [simp]: "pool_type (call_socket a c f v) = pool_type v"
  by (simp add: call_socket_def)






















section \<open>Shutdown\<close>

lemma cleanup_sockets_total:
  "\<forall>e \<in> set m. snd e \<noteq> None \<Longrightarrow> \<exists>w'. cleanup_sockets X m w = Some w'"
  by (induction X m w rule: cleanup_sockets.induct) simp_all

text \<open>A null value in the handle map (left by \<open>ConvertSrtEventToEpollEvent\<close> for an
  unknown handle) makes the clean-up loop dereference a null pointer.\<close>

lemma cleanup_sockets_null:
  "(h, None) \<in> set m \<Longrightarrow> cleanup_sockets X m w = None"
  by (induction X m w rule: cleanup_sockets.induct) auto

lemma cleanup_sockets_other:
  "cleanup_sockets X m w = Some w' \<Longrightarrow> \<forall>e \<in> set m. snd e \<noteq> Some s \<Longrightarrow>
   sockets w' s = sockets w s \<and> calls_of s (trace w') = calls_of s (trace w)"
proof (induction X m w rule: cleanup_sockets.induct)
  case (1 X w)
  then show ?case by simp
next
  case (2 X h rest w)
  then show ?case by simp
next
  case (3 X h socket rest w)
  let ?v = "if Socket_IsClosable X (sockets w socket) then
          call_socket socket DispatchEvents (\<lambda>s. snd (Socket_DispatchEvents X s))
            (call_socket socket (SetState Closed) (Socket_SetState X Closed)
              (call_socket socket CloseInternal (Socket_CloseInternal X) w))
        else w"
  from "3.prems" have run: "cleanup_sockets X rest ?v = Some w'"
    and ne: "socket \<noteq> s" and rest: "\<forall>e \<in> set rest. snd e \<noteq> Some s"
    by auto
  have "sockets ?v s = sockets w s \<and> calls_of s (trace ?v) = calls_of s (trace w)"
    using ne by (simp add: call_socket_def calls_of_append)
  with "3.IH" [OF run rest] show ?case by simp
qed

lemma cleanup_sockets_entry:
  "cleanup_sockets X m w = Some w' \<Longrightarrow> distinct (map snd m) \<Longrightarrow> (h, Some s) \<in> set m \<Longrightarrow>
   calls_of s (trace w') =
     calls_of s (trace w) @
       (if Socket_IsClosable X (sockets w s) then [CloseInternal, SetState Closed, DispatchEvents]
        else [])"
proof (induction X m w rule: cleanup_sockets.induct)
  case (1 X w)
  then show ?case by simp
next
  case (2 X k rest w)
  then show ?case by simp
next
  case (3 X k socket rest w)
  let ?v = "if Socket_IsClosable X (sockets w socket) then
          call_socket socket DispatchEvents (\<lambda>s. snd (Socket_DispatchEvents X s))
            (call_socket socket (SetState Closed) (Socket_SetState X Closed)
              (call_socket socket CloseInternal (Socket_CloseInternal X) w))
        else w"
  from "3.prems" have run: "cleanup_sockets X rest ?v = Some w'"
    and d: "distinct (map snd rest)" "Some socket \<notin> snd ` set rest"
    by auto
  show ?case
  proof (cases "socket = s")
    case True
    have own: "calls_of s (trace ?v) =
      calls_of s (trace w) @
        (if Socket_IsClosable X (sockets w s) then [CloseInternal, SetState Closed, DispatchEvents]
         else [])"
      using True by (simp add: call_socket_def calls_of_append)
    have "\<forall>e \<in> set rest. snd e \<noteq> Some s" using d(2) True by force
    from cleanup_sockets_other [OF run this] own show ?thesis by simp
  next
    case False
    with "3.prems"(3) have mem: "(h, Some s) \<in> set rest" by simp
    have same: "sockets ?v s = sockets w s" "calls_of s (trace ?v) = calls_of s (trace w)"
      using False by (simp_all add: call_socket_def calls_of_append)
    from "3.IH" [OF run d(1) mem] same show ?thesis by simp
  qed
qed

lemma cleanup_sockets_entry_state:
  "cleanup_sockets X m w = Some w' \<Longrightarrow> distinct (map snd m) \<Longrightarrow> (h, Some s) \<in> set m \<Longrightarrow>
   sockets w' s =
     (if Socket_IsClosable X (sockets w s)
      then snd (Socket_DispatchEvents X (Socket_SetState X Closed
                 (Socket_CloseInternal X (sockets w s))))
      else sockets w s)"
proof (induction X m w rule: cleanup_sockets.induct)
  case (1 X w)
  then show ?case by simp
next
  case (2 X k rest w)
  then show ?case by simp
next
  case (3 X k socket rest w)
  let ?v = "if Socket_IsClosable X (sockets w socket) then
          call_socket socket DispatchEvents (\<lambda>s. snd (Socket_DispatchEvents X s))
            (call_socket socket (SetState Closed) (Socket_SetState X Closed)
              (call_socket socket CloseInternal (Socket_CloseInternal X) w))
        else w"
  from "3.prems" have run: "cleanup_sockets X rest ?v = Some w'"
    and d: "distinct (map snd rest)" "Some socket \<notin> snd ` set rest"
    by auto
  show ?case
  proof (cases "socket = s")
    case True
    have own: "sockets ?v s =
      (if Socket_IsClosable X (sockets w s)
       then snd (Socket_DispatchEvents X (Socket_SetState X Closed
                  (Socket_CloseInternal X (sockets w s))))
       else sockets w s)"
      using True by (simp add: call_socket_def)
    have "\<forall>e \<in> set rest. snd e \<noteq> Some s" using d(2) True by force
    from cleanup_sockets_other [OF run this] own show ?thesis by simp
  next
    case False
    with "3.prems"(3) have mem: "(h, Some s) \<in> set rest" by simp
    have same: "sockets ?v s = sockets w s"
      using False by (simp add: call_socket_def)
    from "3.IH" [OF run d(1) mem] same show ?thesis by simp
  qed
qed

lemma cleanup_sockets_fields:
  "cleanup_sockets X m u0 = Some u \<Longrightarrow>
   stop_epoll_thread u = stop_epoll_thread u0 \<and>
   connection_callback_queue u = connection_callback_queue u0"
  by (induction X m u0 rule: cleanup_sockets.induct)
    (simp_all add: call_socket_def split: if_splits)

text \<open>
  Shutdown of a worker whose handle map holds sockets only (no null value, no socket
  twice). On a worker that is not initialized, \<open>Uninitialize\<close> returns false and the worker
  is as before but for the error line and the failed assertion. On an initialized worker
  whose thread is running, \<open>Uninitialize\<close> returns true; the stop flag is set and the thread
  joined; the handle map, the insert queue, the delete queue, the deferred-dispatch list,
  the connection-timeout queue and the GC set are empty and the backend handle is invalid;
  and a socket \<open>s\<close> of the handle map that was closable is the object that \<open>CloseInternal\<close>,
  \<open>SetState Closed\<close> and \<open>DispatchEvents\<close> make of it, having received exactly these three
  calls, while one that was not closable is unchanged and has received none.
\<close>

lemma Uninitialize_drains:
  "(GetNativeHandle w = InvalidSocket \<longrightarrow>
      Uninitialize X w =
        Some (False, emit AssertFailed (emit (LogError ''Epoll is not initialized'') w))) \<and>
   (GetNativeHandle w \<noteq> InvalidSocket \<and> epoll_thread_joinable w \<and>
    (\<forall>e \<in> set (socket_map w). snd e \<noteq> None) \<and> distinct (map snd (socket_map w)) \<longrightarrow>
      (\<exists>w'. Uninitialize X w = Some (True, w') \<and>
         stop_epoll_thread w' \<and> \<not> epoll_thread_joinable w' \<and>
         socket_map w' = [] \<and> sockets_to_insert w' = [] \<and> sockets_to_delete w' = [] \<and>
         sockets_to_dispatch w' = [] \<and> connection_timed_out_queue w' = [] \<and>
         gc_candidates w' = [] \<and> connection_callback_queue w' = [] \<and>
         GetNativeHandle w' = InvalidSocket \<and>
         ((h, Some s) \<in> set (socket_map w) \<longrightarrow>
            sockets w' s =
              (if Socket_IsClosable X (sockets w s)
               then snd (Socket_DispatchEvents X (Socket_SetState X Closed
                          (Socket_CloseInternal X (sockets w s))))
               else sockets w s) \<and>
            calls_of s (trace w') =
              calls_of s (trace w) @
                (if Socket_IsClosable X (sockets w s)
                 then [CloseInternal, SetState Closed, DispatchEvents] else []))))"
proof (intro conjI impI)
  assume "GetNativeHandle w = InvalidSocket"
  then show "Uninitialize X w =
        Some (False, emit AssertFailed (emit (LogError ''Epoll is not initialized'') w))"
    by (simp add: Uninitialize_def)
next
  assume a: "GetNativeHandle w \<noteq> InvalidSocket \<and> epoll_thread_joinable w \<and>
    (\<forall>e \<in> set (socket_map w). snd e \<noteq> None) \<and> distinct (map snd (socket_map w))"
  let ?m = "sort_key fst (socket_map w)"
  let ?w1 = "w\<lparr>connection_callback_queue := [], stop_epoll_thread := True\<rparr>"
  let ?w1' = "?w1\<lparr>connection_callback_queue_running := False\<rparr>"
  have nonnull: "\<forall>e \<in> set ?m. snd e \<noteq> None" using a by simp
  have dist: "distinct (map snd ?m)" using a by (simp add: distinct_map)
  from cleanup_sockets_total [OF nonnull, of X ?w1']
  obtain v where v: "cleanup_sockets X ?m ?w1' = Some v" by blast
  have exit: "ThreadProc_exit X ?w1 = Some v"
    using v by (simp add: ThreadProc_exit_def)
  let ?w2 = "v\<lparr>epoll_thread_joinable := False\<rparr>"
  let ?w' = "?w2\<lparr>socket_count := 0,
                    socket_map := [],
                    sockets_to_insert := [],
                    sockets_to_dispatch := [],
                    sockets_to_delete := [],
                    connection_timed_out_queue := [],
                    gc_candidates := [],
                    backend := OV_SAFE_FUNC (srt_epoll ?w2) (srt_close X)
                                 (OV_SAFE_FUNC (epoll ?w2) (close_epoll X) (backend ?w2)),
                    epoll := InvalidSocket,
                    srt_epoll := InvalidSocket\<rparr>"
  have result: "Uninitialize X w = Some (True, ?w')"
    using a exit by (simp add: Uninitialize_def Let_def)
  have fields: "stop_epoll_thread v" "connection_callback_queue v = []"
    using cleanup_sockets_fields [OF v] by simp_all
  have calls: "calls_of s (trace ?w') =
        calls_of s (trace w) @
          (if Socket_IsClosable X (sockets w s)
           then [CloseInternal, SetState Closed, DispatchEvents] else [])"
    if "(h, Some s) \<in> set (socket_map w)"
    using cleanup_sockets_entry [OF v dist, of h s] that by simp
  have state: "sockets ?w' s =
        (if Socket_IsClosable X (sockets w s)
         then snd (Socket_DispatchEvents X (Socket_SetState X Closed
                    (Socket_CloseInternal X (sockets w s))))
         else sockets w s)"
    if "(h, Some s) \<in> set (socket_map w)"
    using cleanup_sockets_entry_state [OF v dist, of h s] that by simp
  show "\<exists>w'. Uninitialize X w = Some (True, w') \<and>
         stop_epoll_thread w' \<and> \<not> epoll_thread_joinable w' \<and>
         socket_map w' = [] \<and> sockets_to_insert w' = [] \<and> sockets_to_delete w' = [] \<and>
         sockets_to_dispatch w' = [] \<and> connection_timed_out_queue w' = [] \<and>
         gc_candidates w' = [] \<and> connection_callback_queue w' = [] \<and>
         GetNativeHandle w' = InvalidSocket \<and>
         ((h, Some s) \<in> set (socket_map w) \<longrightarrow>
            sockets w' s =
              (if Socket_IsClosable X (sockets w s)
               then snd (Socket_DispatchEvents X (Socket_SetState X Closed
                          (Socket_CloseInternal X (sockets w s))))
               else sockets w s) \<and>
            calls_of s (trace w') =
              calls_of s (trace w) @
                (if Socket_IsClosable X (sockets w s)
                 then [CloseInternal, SetState Closed, DispatchEvents] else []))"
  proof (intro exI [of _ ?w'] conjI impI)
    show "Uninitialize X w = Some (True, ?w')" by (rule result)
    show "GetNativeHandle ?w' = InvalidSocket" by (simp add: GetNativeHandle_def)
    show "sockets ?w' s =
        (if Socket_IsClosable X (sockets w s)
         then snd (Socket_DispatchEvents X (Socket_SetState X Closed
                    (Socket_CloseInternal X (sockets w s))))
         else sockets w s)" if "(h, Some s) \<in> set (socket_map w)"
      using that by (rule state)
    show "calls_of s (trace ?w') =
        calls_of s (trace w) @
          (if Socket_IsClosable X (sockets w s)
           then [CloseInternal, SetState Closed, DispatchEvents] else [])"
      if "(h, Some s) \<in> set (socket_map w)"
      using that by (rule calls)
  qed (use fields in simp_all)
qed

lemma Uninitialize_drains_sample:
  "Uninitialize demo (registered_worker\<lparr>epoll := - 1\<rparr>) =
     Some (False, registered_worker
        \<lparr>epoll := - 1, trace := [LogError ''Epoll is not initialized'', AssertFailed]\<rparr>) \<and>
   (\<exists>w'. Uninitialize demo registered_worker = Some (True, w') \<and>
      socket_map w' = [] \<and> sockets_to_insert w' = [] \<and> sockets_to_delete w' = [] \<and>
      sockets_to_dispatch w' = [] \<and> connection_timed_out_queue w' = [] \<and>
      gc_candidates w' = [] \<and>
      sockets w' 0 = (demo_sock 10 Closed)\<lparr>d_closable := False\<rparr> \<and>
      calls_of 0 (trace w') = [CloseInternal, SetState Closed, DispatchEvents])"
proof -
  have a: "Uninitialize demo (registered_worker\<lparr>epoll := - 1\<rparr>) =
     Some (False, registered_worker
        \<lparr>epoll := - 1, trace := [LogError ''Epoll is not initialized'', AssertFailed]\<rparr>)"
    using Uninitialize_drains [of "registered_worker\<lparr>epoll := - 1\<rparr>" demo 10 0, THEN conjunct1]
    by (simp add: registered_worker_def demo_worker_def GetNativeHandle_def InvalidSocket_def
        emit_def)
  have h: "GetNativeHandle registered_worker \<noteq> InvalidSocket \<and>
      epoll_thread_joinable registered_worker \<and>
      (\<forall>e \<in> set (socket_map registered_worker). snd e \<noteq> None) \<and>
      distinct (map snd (socket_map registered_worker))"
    by (simp add: registered_worker_def demo_worker_def GetNativeHandle_def InvalidSocket_def)
  have e: "(10, Some 0) \<in> set (socket_map registered_worker)"
    "calls_of 0 (trace registered_worker) = []"
    "Socket_IsClosable demo (sockets registered_worker 0)"
    "sockets registered_worker 0 = demo_sock 10 Connecting"
    by (simp_all add: registered_worker_def demo_worker_def sample_sockets_def demo_sock_def)
  from Uninitialize_drains [of registered_worker demo 10 0, THEN conjunct2, THEN mp, OF h]
  obtain w' where w': "Uninitialize demo registered_worker = Some (True, w')"
    "socket_map w' = []" "sockets_to_insert w' = []" "sockets_to_delete w' = []"
    "sockets_to_dispatch w' = []" "connection_timed_out_queue w' = []" "gc_candidates w' = []"
    "(10, Some 0) \<in> set (socket_map registered_worker) \<longrightarrow>
       sockets w' 0 =
         (if Socket_IsClosable demo (sockets registered_worker 0)
          then snd (Socket_DispatchEvents demo (Socket_SetState demo Closed
                     (Socket_CloseInternal demo (sockets registered_worker 0))))
          else sockets registered_worker 0) \<and>
       calls_of 0 (trace w') =
         calls_of 0 (trace registered_worker) @
           (if Socket_IsClosable demo (sockets registered_worker 0)
            then [CloseInternal, SetState Closed, DispatchEvents] else [])"
    by blast
  from w'(8) e(1-3) have c: "calls_of 0 (trace w') = [CloseInternal, SetState Closed, DispatchEvents]"
    by simp
  from w'(8) e(1,3) have "sockets w' 0 =
      snd (Socket_DispatchEvents demo (Socket_SetState demo Closed
             (Socket_CloseInternal demo (sockets registered_worker 0))))"
    by simp
  then have s: "sockets w' 0 = (demo_sock 10 Closed)\<lparr>d_closable := False\<rparr>"
    by (simp add: e(4) demo_sock_def)
  from c s w'(1-7) have b: "\<exists>w'. Uninitialize demo registered_worker = Some (True, w') \<and>
      socket_map w' = [] \<and> sockets_to_insert w' = [] \<and> sockets_to_delete w' = [] \<and>
      sockets_to_dispatch w' = [] \<and> connection_timed_out_queue w' = [] \<and>
      gc_candidates w' = [] \<and>
      sockets w' 0 = (demo_sock 10 Closed)\<lparr>d_closable := False\<rparr> \<and>
      calls_of 0 (trace w') = [CloseInternal, SetState Closed, DispatchEvents]"
    by blast
  from a b show ?thesis by blast
qed

text \<open>
  Claim C4 fails on the code. The clean-up that the worker thread runs when it leaves its
  loop calls \<^verbatim>\<open>IsClosable()\<close> on every value of the handle map and does not test the value
  for null, as the loop body does for the payload of an event. A null value is in the map
  once \<open>ConvertSrtEventToEpollEvent\<close> has looked up a handle that is not a key of the map
  (an SRT event for a socket the worker does not hold). On an initialized worker whose
  thread is running, \<open>Uninitialize\<close> then does not return at all: the joined thread
  dereferences the null pointer, no socket after it is closed, nothing is cleared and no
  result is given (\<open>None\<close>). This holds for every such worker, and for the worker that
  \<open>ConvertSrtEventToEpollEvent\<close> leaves after an event on an absent handle.
\<close>

theorem Uninitialize_null_entry:
  "GetNativeHandle w \<noteq> InvalidSocket \<and> epoll_thread_joinable w \<longrightarrow>
     ((h, None) \<in> set (socket_map w) \<longrightarrow> Uninitialize X w = None) \<and>
     (map_of (socket_map w) (fd srt_event) = None \<longrightarrow>
        Uninitialize X (snd (ConvertSrtEventToEpollEvent X srt_event w)) = None)"
proof (intro impI conjI)
  assume a: "GetNativeHandle w \<noteq> InvalidSocket \<and> epoll_thread_joinable w"
  have null: "Uninitialize X u = None"
    if "GetNativeHandle u \<noteq> InvalidSocket" "epoll_thread_joinable u"
      "(k, None) \<in> set (socket_map u)" for u :: "('a, 'b) worker" and k
  proof -
    have "(k, None) \<in> set (sort_key fst (socket_map u))" using that(3) by simp
    then have "cleanup_sockets X (sort_key fst (socket_map u)) v = None" for v
      by (rule cleanup_sockets_null)
    then show ?thesis
      using that(1,2) by (simp add: Uninitialize_def ThreadProc_exit_def Let_def)
  qed
  show "Uninitialize X w = None" if "(h, None) \<in> set (socket_map w)"
    using null [of w h] a that by simp
  show "Uninitialize X (snd (ConvertSrtEventToEpollEvent X srt_event w)) = None"
    if absent: "map_of (socket_map w) (fd srt_event) = None"
  proof -
    let ?u = "snd (ConvertSrtEventToEpollEvent X srt_event w)"
    have m: "socket_map ?u = socket_map w @ [(fd srt_event, None)]"
      using absent by (simp add: ConvertSrtEventToEpollEvent_def map_subscript_def Let_def)
    have "GetNativeHandle ?u = GetNativeHandle w" "epoll_thread_joinable ?u = epoll_thread_joinable w"
      by (simp_all add: ConvertSrtEventToEpollEvent_def GetNativeHandle_def Let_def
          split: prod.splits)
    with a m null [of ?u "fd srt_event"] show ?thesis by simp
  qed
qed

theorem Uninitialize_null_entry_witness:
  "(\<exists>w'. Uninitialize stray srt_worker = Some (True, w')) \<and>
   socket_map (ThreadProc_iteration stray False srt_worker) = [(10, Some 0), (42, None)] \<and>
   Uninitialize stray (ThreadProc_iteration stray False srt_worker) = None \<and>
   Uninitialize demo
     (snd (ConvertSrtEventToEpollEvent demo \<lparr>fd = 42, srt_events = 1\<rparr> srt_worker)) = None"
proof -
  let ?u = "ThreadProc_iteration stray False srt_worker"
  have before: "\<exists>w'. Uninitialize stray srt_worker = Some (True, w')"
    by (simp add: Uninitialize_def ThreadProc_exit_def srt_worker_def demo_worker_def
        GetNativeHandle_def InvalidSocket_def Let_def sample_sockets_def demo_sock_def
        call_socket_def stray_def)
  have m: "socket_map ?u = [(10, Some 0), (42, None)]" by code_simp
  have g: "GetNativeHandle ?u \<noteq> InvalidSocket \<and> epoll_thread_joinable ?u" by code_simp
  have loop: "Uninitialize stray ?u = None"
    using Uninitialize_null_entry [of ?u 42 stray "\<lparr>fd = 42, srt_events = 1\<rparr>", THEN mp, OF g,
        THEN conjunct1]
    by (simp add: m)
  have g0: "GetNativeHandle srt_worker \<noteq> InvalidSocket \<and> epoll_thread_joinable srt_worker"
    by (simp add: srt_worker_def demo_worker_def GetNativeHandle_def InvalidSocket_def)
  have conv: "Uninitialize demo
     (snd (ConvertSrtEventToEpollEvent demo \<lparr>fd = 42, srt_events = 1\<rparr> srt_worker)) = None"
    using Uninitialize_null_entry [of srt_worker 42 demo "\<lparr>fd = 42, srt_events = 1\<rparr>", THEN mp,
        OF g0, THEN conjunct2]
    by (simp add: srt_worker_def demo_worker_def)
  from before m loop conv show ?thesis by blast
qed

section \<open>The loop body\<close>

lemma is_dispatch_Call [simp]: "is_dispatch (Call s c) = (c = DispatchEvents)"
  by (cases c) simp_all

lemma worker_of_triple [simp]: "worker_of (n, st, w) = w"
  by (simp add: worker_of_def)


lemma resolve_connect_idle:
  "Socket_GetState X (sockets w s) \<noteq> Connecting \<Longrightarrow> resolve_connect X s e w = (False, w)"
  by (simp add: resolve_connect_def)

lemma resolve_connect_trace:
  "OV_CHECK_FLAG e EPOLLOUT \<Longrightarrow> Socket_GetState X (sockets w s) = Connecting \<Longrightarrow>
   trace (snd (resolve_connect X s e w)) =
     trace w @
       [Call s GetSockOpt,
        Call s (OnConnectedEvent
          (case fst (Socket_GetSockOpt X (sockets w s)) of
             None \<Rightarrow> Some UnknownSocketError
           | Some so_error \<Rightarrow> if so_error = 0 then None else Some (SocketErrorCode so_error)))]"
  by (simp add: resolve_connect_def call_socket_def Let_def split: option.splits)



lemma on_epollout_trace:
  assumes "OV_CHECK_FLAG e EPOLLOUT" and "\<not> OV_CHECK_FLAG e EPOLLHUP"
  shows "trace (worker_of (on_epollout X s e (n, st, w))) = trace w @ [Call s DispatchEvents]"
  using assms
  by (simp add: on_epollout_def Let_def call_socket_def split: DispatchResult.splits)

lemma on_epollout_frame:
  "sockets_to_dispatch (worker_of (on_epollout X s e c)) = sockets_to_dispatch (worker_of c)"
  "prefix (trace (worker_of c)) (trace (worker_of (on_epollout X s e c)))"
  by (cases c; simp add: on_epollout_def Let_def call_socket_def split: DispatchResult.splits)+

lemma on_epollin_frame:
  "fst (on_epollin X s e c) = fst c"
  "fst (snd (on_epollin X s e c)) = fst (snd c)"
  "gc_candidates (worker_of (on_epollin X s e c)) = gc_candidates (worker_of c)"
  "sockets_to_dispatch (worker_of (on_epollin X s e c)) = sockets_to_dispatch (worker_of c)"
  "filter is_dispatch (trace (worker_of (on_epollin X s e c))) =
     filter is_dispatch (trace (worker_of c))"
  "prefix (trace (worker_of c)) (trace (worker_of (on_epollin X s e c)))"
  by (cases c; simp add: on_epollin_def call_socket_def)+

lemma on_epollerr_frame:
  "gc_candidates (worker_of (on_epollerr X s e c)) = gc_candidates (worker_of c)"
  "sockets_to_dispatch (worker_of (on_epollerr X s e c)) = sockets_to_dispatch (worker_of c)"
  "filter is_dispatch (trace (worker_of (on_epollerr X s e c))) =
     filter is_dispatch (trace (worker_of c))"
  "prefix (trace (worker_of c)) (trace (worker_of (on_epollerr X s e c)))"
  by (cases c; simp add: on_epollerr_def call_socket_def)+



lemma on_epollhup_frame:
  "gc_candidates (worker_of (on_epollhup X s e c)) = gc_candidates (worker_of c)"
  "sockets_to_dispatch (worker_of (on_epollhup X s e c)) = sockets_to_dispatch (worker_of c)"
  "filter is_dispatch (trace (worker_of (on_epollhup X s e c))) =
     filter is_dispatch (trace (worker_of c))"
  "prefix (trace (worker_of c)) (trace (worker_of (on_epollhup X s e c)))"
  by (cases c; simp add: on_epollhup_def call_socket_def)+



text \<open>The closure.\<close>

lemma close_socket_frame:
  "gc_candidates (close_socket X s st w) =
     AList.delete (Socket_GetNativeHandle X (sockets w s)) (gc_candidates w)"
  "sockets_to_dispatch (close_socket X s st w) = sockets_to_dispatch w @ [s]"
  "trace (close_socket X s st w) =
     trace w @ (if Socket_IsClosable X (sockets w s) then [Call s (CloseWithState st)] else [])"
  "filter is_dispatch (trace (close_socket X s st w)) = filter is_dispatch (trace w)"
  "prefix (trace w) (trace (close_socket X s st w))"
  by (simp_all add: close_socket_def EnqueueToDispatchLater_def call_socket_def Let_def)

text \<open>The whole of the flag handling, and of the loop body.\<close>

lemma process_flags_prefix:
  "prefix (trace (worker_of (on_epollout X s e (False, Closed, w))))
     (trace (worker_of (process_flags X s e w)))"
  unfolding process_flags_def
  by (meson on_epollin_frame(6) on_epollerr_frame(4) on_epollhup_frame(4) prefix_order.trans)


lemma process_event_unfold:
  "process_event X s e w =
     (let w1 = snd (resolve_connect X s e w) in
      if Socket_GetBlockingMode X (sockets w1 s) = Blocking then w1
      else if fst (resolve_connect X s e w) then close_socket X s Closed w1
      else if fst (process_flags X s e w1)
        then close_socket X s (fst (snd (process_flags X s e w1)))
               (worker_of (process_flags X s e w1))
      else worker_of (process_flags X s e w1))"
  by (simp add: process_event_def Let_def worker_of_def split: prod.splits)


lemma process_event_prefix:
  "prefix (trace (snd (resolve_connect X s e w))) (trace (process_event X s e w))"
proof -
  let ?w1 = "snd (resolve_connect X s e w)"
  have flags: "prefix (trace ?w1) (trace (worker_of (process_flags X s e ?w1)))"
    using on_epollout_frame(2) [of "(False, Closed, ?w1)" X s e] process_flags_prefix [of X s e ?w1]
    by (auto intro: prefix_order.trans)
  have closed: "prefix (trace ?w1) (trace (close_socket X s st (worker_of (process_flags X s e ?w1))))"
    for st
    using flags close_socket_frame(5) [of "worker_of (process_flags X s e ?w1)" X s st]
    by (rule prefix_order.trans)
  show ?thesis
    by (simp add: process_event_unfold Let_def flags closed close_socket_frame(5))
qed

lemma process_event_dispatch_prefix:
  assumes "OV_CHECK_FLAG e EPOLLOUT" and "\<not> OV_CHECK_FLAG e EPOLLHUP"
    and "Socket_GetState X (sockets w s) \<noteq> Connecting"
    and "Socket_GetBlockingMode X (sockets w s) = NonBlocking"
  shows "prefix (trace w @ [Call s DispatchEvents]) (trace (process_event X s e w))"
proof -
  have rc: "resolve_connect X s e w = (False, w)"
    using assms(3) by (rule resolve_connect_idle)
  have flags: "prefix (trace w @ [Call s DispatchEvents]) (trace (worker_of (process_flags X s e w)))"
    using process_flags_prefix [of X s e w] on_epollout_trace [OF assms(1,2), of X s False Closed w]
    by simp
  have closed: "prefix (trace w @ [Call s DispatchEvents])
      (trace (close_socket X s st (worker_of (process_flags X s e w))))" for st
    using flags close_socket_frame(5) [of "worker_of (process_flags X s e w)" X s st]
    by (rule prefix_order.trans)
  show ?thesis
    using assms(4) by (simp add: process_event_unfold rc flags closed)
qed

lemma handle_event_past_first:
  "data_ptr event = Some s \<Longrightarrow> Socket_IsClosable X (sockets w s) \<Longrightarrow>
   \<not> Socket_NeedToWaitFirstEpollEvent X (sockets w s) \<Longrightarrow>
   handle_event X event w = process_event X s (events event) w"
  by (simp add: handle_event_def)

lemma handle_event_first:
  "data_ptr event = Some s \<Longrightarrow> Socket_IsClosable X (sockets w s) \<Longrightarrow>
   Socket_NeedToWaitFirstEpollEvent X (sockets w s) \<Longrightarrow> OV_CHECK_FLAG (events event) EPOLLOUT \<Longrightarrow>
   handle_event X event w =
     call_socket s SetFirstEpollEventReceived (Socket_SetFirstEpollEventReceived X) w"
  by (simp add: handle_event_def)


lemma flag_values [simp]:
  "OV_CHECK_FLAG 0x14 EPOLLOUT" "OV_CHECK_FLAG 0x14 EPOLLHUP"
  "\<not> OV_CHECK_FLAG 0x14 EPOLLIN" "\<not> OV_CHECK_FLAG 0x14 EPOLLERR"
  "\<not> OV_CHECK_FLAG 0x14 EPOLLRDHUP"
  "OV_CHECK_FLAG 0x4 EPOLLOUT" "\<not> OV_CHECK_FLAG 0x4 EPOLLHUP"
  "\<not> OV_CHECK_FLAG 0x4 EPOLLIN" "\<not> OV_CHECK_FLAG 0x4 EPOLLERR"
  "\<not> OV_CHECK_FLAG 0x4 EPOLLRDHUP"
  by (simp_all add: OV_CHECK_FLAG_def EPOLLOUT_def EPOLLHUP_def EPOLLIN_def EPOLLERR_def
      EPOLLRDHUP_def)

text \<open>
  Claim C2, as stated, fails: a socket that still needs its first epoll event but is not
  closable any more (it was closed before the event arrived) receives \<open>EPOLLOUT\<close>. The
  loop body ignores the event at the closable test, before the first-event check: the
  socket is not marked and still needs its first epoll event.
\<close>

theorem first_event_unmarked_counterexample:
  "Socket_NeedToWaitFirstEpollEvent demo (sockets event_worker 5) \<and>
   OV_CHECK_FLAG 0x4 EPOLLOUT \<and>
   handle_event demo \<lparr>events = 0x4, data_ptr = Some 5\<rparr> event_worker = event_worker \<and>
   trace (handle_event demo \<lparr>events = 0x4, data_ptr = Some 5\<rparr> event_worker) = [] \<and>
   Socket_NeedToWaitFirstEpollEvent demo
     (sockets (handle_event demo \<lparr>events = 0x4, data_ptr = Some 5\<rparr> event_worker) 5)"
  by (simp add: handle_event_def event_worker_def event_sockets_def demo_worker_def demo_sock_def)

text \<open>
  Claim C2, amended. For an event whose payload is a socket:
  \<^item> if the socket is not closable, the event is ignored (the worker is unchanged);
  \<^item> if the socket is closable, still needs its first epoll event, and the event carries
    \<open>EPOLLOUT\<close>, the loop body calls \<open>SetFirstEpollEventReceived\<close> on the socket and does
    nothing else: the worker is as before but for that object and that one call in the
    trace (no connect resolution, no dispatch, no read notification, no closure);
  \<^item> if the socket is closable and does not need its first event any more, the event gets
    the normal processing \<open>process_event\<close>: with \<open>EPOLLOUT\<close>, a connecting socket has its
    pending connect resolved (\<open>GetSockOpt\<close>, then \<open>OnConnectedEvent\<close> with the outcome), and
    a non-blocking socket that is not connecting is dispatched (without \<open>EPOLLHUP\<close>).
\<close>

theorem first_writable_event_swallowed:
  assumes "data_ptr event = Some socket"
  shows
    "(\<not> Socket_IsClosable X (sockets w socket) \<longrightarrow> handle_event X event w = w) \<and>
     (Socket_IsClosable X (sockets w socket) \<and>
      Socket_NeedToWaitFirstEpollEvent X (sockets w socket) \<and>
      OV_CHECK_FLAG (events event) EPOLLOUT \<longrightarrow>
        handle_event X event w =
          w\<lparr>sockets := (sockets w)
                (socket := Socket_SetFirstEpollEventReceived X (sockets w socket)),
            trace := trace w @ [Call socket SetFirstEpollEventReceived]\<rparr>) \<and>
     (Socket_IsClosable X (sockets w socket) \<and>
      \<not> Socket_NeedToWaitFirstEpollEvent X (sockets w socket) \<longrightarrow>
        handle_event X event w = process_event X socket (events event) w) \<and>
     (Socket_IsClosable X (sockets w socket) \<and>
      \<not> Socket_NeedToWaitFirstEpollEvent X (sockets w socket) \<and>
      OV_CHECK_FLAG (events event) EPOLLOUT \<and>
      Socket_GetState X (sockets w socket) = Connecting \<longrightarrow>
        prefix
          (trace w @
             [Call socket GetSockOpt,
              Call socket (OnConnectedEvent
                (case fst (Socket_GetSockOpt X (sockets w socket)) of
                   None \<Rightarrow> Some UnknownSocketError
                 | Some so_error \<Rightarrow>
                     if so_error = 0 then None else Some (SocketErrorCode so_error)))])
          (trace (handle_event X event w))) \<and>
     (Socket_IsClosable X (sockets w socket) \<and>
      \<not> Socket_NeedToWaitFirstEpollEvent X (sockets w socket) \<and>
      OV_CHECK_FLAG (events event) EPOLLOUT \<and> \<not> OV_CHECK_FLAG (events event) EPOLLHUP \<and>
      Socket_GetState X (sockets w socket) \<noteq> Connecting \<and>
      Socket_GetBlockingMode X (sockets w socket) = NonBlocking \<longrightarrow>
        prefix (trace w @ [Call socket DispatchEvents]) (trace (handle_event X event w)))"
proof (intro conjI impI)
  assume "\<not> Socket_IsClosable X (sockets w socket)"
  then show "handle_event X event w = w"
    using assms by (simp add: handle_event_def)
next
  assume "Socket_IsClosable X (sockets w socket) \<and>
      Socket_NeedToWaitFirstEpollEvent X (sockets w socket) \<and>
      OV_CHECK_FLAG (events event) EPOLLOUT"
  then show "handle_event X event w =
          w\<lparr>sockets := (sockets w)
                (socket := Socket_SetFirstEpollEventReceived X (sockets w socket)),
            trace := trace w @ [Call socket SetFirstEpollEventReceived]\<rparr>"
    using assms by (simp add: handle_event_first call_socket_def)
next
  assume "Socket_IsClosable X (sockets w socket) \<and>
      \<not> Socket_NeedToWaitFirstEpollEvent X (sockets w socket)"
  then show "handle_event X event w = process_event X socket (events event) w"
    using assms by (simp add: handle_event_past_first)
next
  assume a: "Socket_IsClosable X (sockets w socket) \<and>
      \<not> Socket_NeedToWaitFirstEpollEvent X (sockets w socket) \<and>
      OV_CHECK_FLAG (events event) EPOLLOUT \<and>
      Socket_GetState X (sockets w socket) = Connecting"
  then have "handle_event X event w = process_event X socket (events event) w"
    using assms by (simp add: handle_event_past_first)
  with a process_event_prefix [of X socket "events event" w]
  show "prefix
          (trace w @
             [Call socket GetSockOpt,
              Call socket (OnConnectedEvent
                (case fst (Socket_GetSockOpt X (sockets w socket)) of
                   None \<Rightarrow> Some UnknownSocketError
                 | Some so_error \<Rightarrow>
                     if so_error = 0 then None else Some (SocketErrorCode so_error)))])
          (trace (handle_event X event w))"
    by (simp add: resolve_connect_trace)
next
  assume a: "Socket_IsClosable X (sockets w socket) \<and>
      \<not> Socket_NeedToWaitFirstEpollEvent X (sockets w socket) \<and>
      OV_CHECK_FLAG (events event) EPOLLOUT \<and> \<not> OV_CHECK_FLAG (events event) EPOLLHUP \<and>
      Socket_GetState X (sockets w socket) \<noteq> Connecting \<and>
      Socket_GetBlockingMode X (sockets w socket) = NonBlocking"
  then have "handle_event X event w = process_event X socket (events event) w"
    using assms by (simp add: handle_event_past_first)
  with a process_event_dispatch_prefix [of "events event" X w socket]
  show "prefix (trace w @ [Call socket DispatchEvents]) (trace (handle_event X event w))"
    by simp
qed

theorem first_writable_event_swallowed_witness:
  "handle_event demo \<lparr>events = 0x14, data_ptr = Some 0\<rparr> event_worker =
     event_worker\<lparr>sockets := (sockets event_worker)(0 := (demo_sock 12 Connected)),
                  trace := [Call 0 SetFirstEpollEventReceived]\<rparr> \<and>
   handle_event demo \<lparr>events = 0x4, data_ptr = Some 5\<rparr> event_worker = event_worker \<and>
   prefix [Call (Suc 0) DispatchEvents]
     (trace (handle_event demo \<lparr>events = 0x4, data_ptr = Some (Suc 0)\<rparr> event_worker)) \<and>
   prefix [Call 2 GetSockOpt, Call 2 (OnConnectedEvent (Some (SocketErrorCode 111)))]
     (trace (handle_event demo \<lparr>events = 0x4, data_ptr = Some 2\<rparr> event_worker))"
proof -
  have s: "sockets event_worker 0 = (demo_sock 12 Connected)\<lparr>d_need_first := True\<rparr>"
    "sockets event_worker (Suc 0) = demo_sock 11 Connected"
    "sockets event_worker 2 = (demo_sock 13 Connecting)\<lparr>d_so_error := Some 111\<rparr>"
    "sockets event_worker 5 = (demo_sock 16 Closed)\<lparr>d_need_first := True, d_closable := False\<rparr>"
    "trace event_worker = []"
    by (simp_all add: event_worker_def event_sockets_def demo_worker_def)
  have a: "handle_event demo \<lparr>events = 0x14, data_ptr = Some 0\<rparr> event_worker =
     event_worker\<lparr>sockets := (sockets event_worker)(0 := (demo_sock 12 Connected)),
                  trace := [Call 0 SetFirstEpollEventReceived]\<rparr>"
    using first_writable_event_swallowed
      [of "\<lparr>events = 0x14, data_ptr = Some 0\<rparr>" 0 demo event_worker,
        THEN conjunct2, THEN conjunct1]
    by (simp add: s demo_sock_def)
  have z: "handle_event demo \<lparr>events = 0x4, data_ptr = Some 5\<rparr> event_worker = event_worker"
    using first_writable_event_swallowed
      [of "\<lparr>events = 0x4, data_ptr = Some 5\<rparr>" 5 demo event_worker, THEN conjunct1]
    by (simp add: s demo_sock_def)
  have b: "prefix [Call (Suc 0) DispatchEvents]
     (trace (handle_event demo \<lparr>events = 0x4, data_ptr = Some (Suc 0)\<rparr> event_worker))"
    using first_writable_event_swallowed
      [of "\<lparr>events = 0x4, data_ptr = Some (Suc 0)\<rparr>" "Suc 0" demo event_worker,
        THEN conjunct2, THEN conjunct2, THEN conjunct2, THEN conjunct2]
    by (simp add: s demo_sock_def)
  have c: "prefix [Call 2 GetSockOpt, Call 2 (OnConnectedEvent (Some (SocketErrorCode 111)))]
     (trace (handle_event demo \<lparr>events = 0x4, data_ptr = Some 2\<rparr> event_worker))"
    using first_writable_event_swallowed
      [of "\<lparr>events = 0x4, data_ptr = Some 2\<rparr>" 2 demo event_worker,
        THEN conjunct2, THEN conjunct2, THEN conjunct2, THEN conjunct1]
    by (simp add: s demo_sock_def)
  from a z b c show ?thesis by blast
qed










lemma dispatch_later_single:
  "sockets_to_dispatch v = [s] \<Longrightarrow>
   dispatch_later X v = dispatch_later_step X s (v\<lparr>sockets_to_dispatch := []\<rparr>)"
  by (simp add: dispatch_later_def)




end
